theory Spec2Isabelle
  imports Main "HOL-Library.Char_ord" "HOL-Library.List_Lexorder"
begin

section \<open>Stack markers\<close>

text \<open>
  The line numbers in this theory are those of the file \<open>part_000\<close> of the sources, which
  holds \<^verbatim>\<open>Blockly.Linearization\<close> and \<^verbatim>\<open>Blockly.Linearization.BlockJoiner\<close>.

  \<^verbatim>\<open>Blockly.Linearization.nextStackMarker\<close> (lines 1558-1565). A marker is a
  JavaScript string; it is modelled as a \<^typ>\<open>string\<close>, \<open>charCodeAt\<close> as \<^const>\<open>of_char\<close> and
  \<open>String.fromCharCode\<close> as \<^const>\<open>char_of\<close>. A \<^typ>\<open>char\<close> has eight bits, a code unit of
  JavaScript sixteen: the two agree on every marker whose last code is below 255, and on a
  marker that ends in the code 255 JavaScript yields the code unit 256 where
  \<^const>\<open>char_of\<close> wraps to 0. The markers the code hands out start at \<open>A\<close> and are made of
  the upper-case alphabet only.
  On the empty string the source reads \<open>charCodeAt(-1)\<close>, which is \<open>NaN\<close>; the comparison with
  the code of \<open>Z\<close> is false and \<open>String.fromCharCode(NaN + 1)\<close> is the string holding the
  single code unit 0.
\<close>

function nextStackMarker :: "string \<Rightarrow> string" where
  "nextStackMarker marker =
     (if marker = [] then [char_of (0::nat)]
      else
        let prefix = butlast marker in
        if (of_char (last marker) :: nat) = of_char CHR ''Z''
        then (if prefix \<noteq> [] then nextStackMarker prefix else ''A'') @ ''A''
        else prefix @ [char_of ((of_char (last marker) :: nat) + 1)])"
  by pat_completeness auto
termination
  by (relation "measure length") auto

declare nextStackMarker.simps [simp del]

text \<open>
  The markers handed out by \<open>makeWorkspaceView_\<close> (lines 440-441) through
  \<open>makeStackItem_\<close> (lines 457-458): \<open>this.marker\<close> starts at \<open>'A'\<close>, every stack takes the
  current marker and advances it.
\<close>

fun assignMarkers :: "string \<Rightarrow> 'a list \<Rightarrow> string list" where
  "assignMarkers marker [] = []"
| "assignMarkers marker (stack # stacks) = marker # assignMarkers (nextStackMarker marker) stacks"

definition stackMarkers :: "'a list \<Rightarrow> string list" where
  "stackMarkers stacks = assignMarkers ''A'' stacks"

text \<open>The dictionary order of strings, and the order that compares lengths first.\<close>

definition lexLess :: "string \<Rightarrow> string \<Rightarrow> bool" where
  "lexLess a b = (a < b)"

definition shortlexLess :: "string \<Rightarrow> string \<Rightarrow> bool" where
  "shortlexLess a b = (length a < length b \<or> (length a = length b \<and> a < b))"

definition upperMarker :: "string \<Rightarrow> bool" where
  "upperMarker m = (m \<noteq> [] \<and> list_all (\<lambda>c. CHR ''A'' \<le> c \<and> c \<le> CHR ''Z'') m)"

section \<open>The host: AST nodes and the operations the code calls\<close>

text \<open>
  Modelled from the spec: the cursor \<^verbatim>\<open>Blockly.ASTNode\<close> and the entities \<^verbatim>\<open>Blockly.Block\<close>,
  \<^verbatim>\<open>Blockly.Connection\<close> and \<^verbatim>\<open>Blockly.Field\<close>, which belong to the host and are not part of
  the sources. The spec has a cursor ``polymorphic over type WORKSPACE, STACK, BLOCK, INPUT,
  FIELD, NEXT, PREVIOUS, OUTPUT'' that ``exposes the concrete entity at that position (a
  Block, Connection, or Field)''. A node is the pair the source reads through \<open>getType()\<close>
  and \<open>getLocation()\<close>; a location is the entity a node points at, tagged with the class
  the source tests with \<open>instanceof\<close>. Every other host operation is a parameter: a field
  of a record of functions over a host state \<open>'h\<close>. A navigation step returns \<open>None\<close> for
  JavaScript's \<open>null\<close>. A mutating operation returns the new host state and the exception
  it threw, if any.
\<close>

datatype asttype = WORKSPACE | STACK | BLOCK | INPUT | FIELD | NEXT | PREVIOUS | OUTPUT

datatype location = Block nat | Connection nat | Field nat | Workspace

datatype node = ASTNode (getType: asttype) (getLocation: location)

datatype exn = TypeError | ConnectionError | DOMException | Error

record 'h joinerHost =
  nodeNext :: "'h \<Rightarrow> node \<Rightarrow> node option"
  nodePrev :: "'h \<Rightarrow> node \<Rightarrow> node option"
  disconnect :: "'h \<Rightarrow> location \<Rightarrow> 'h \<times> exn option"
  bumpNeighbours :: "'h \<Rightarrow> location \<Rightarrow> 'h \<times> exn option"
  connect :: "'h \<Rightarrow> location \<Rightarrow> location \<Rightarrow> 'h \<times> exn option"

section \<open>BlockJoiner\<close>

text \<open>
  A name of the source that ends in an underscore (\<open>attemptConnection_\<close>,
  \<open>bumpNeighbours_\<close>, \<open>generateList_\<close>) is written here without the underscore.
\<close>

text \<open>
  The two slots of \<^verbatim>\<open>Blockly.Linearization.BlockJoiner\<close> (lines 105-117).
\<close>

record joiner =
  blockNode :: "node option"
  connectionNode :: "node option"

text \<open>
  What the joiner acts on: the host state, and the log of the calls that leave the joiner
  (host mutations, \<open>console.warn\<close> and \<open>document.location.reload\<close>).
\<close>

datatype effect =
  Disconnect location
  | BumpNeighbours location
  | Connect location location
  | Warn
  | Reload

record 'h world =
  hostState :: 'h
  effects :: "effect list"

text \<open>How a call ends: it returns a value, or an exception leaves it.\<close>

datatype 'a outcome = Returned 'a | Threw exn

text \<open>
  The first \<open>try\<close> block of \<open>attemptConnection_\<close> (lines 176-183): detach the provided node
  from an old predecessor. Every exception in it is swallowed; a \<open>null\<close> receiver is a
  \<open>TypeError\<close> like any other.
\<close>

definition detachOld :: "'h joinerHost \<Rightarrow> node \<Rightarrow> 'h world \<Rightarrow> 'h world" where
  "detachOld ops provided w =
     (case nodePrev ops (hostState w) provided of
        None \<Rightarrow> w
      | Some p \<Rightarrow>
          (case nodePrev ops (hostState w) p of
             None \<Rightarrow> w
           | Some pp \<Rightarrow>
               if getType p \<in> set [PREVIOUS, OUTPUT] then
                 (let (h1, e1) = disconnect ops (hostState w) (getLocation p);
                      w1 = w\<lparr>hostState := h1, effects := effects w @ [Disconnect (getLocation p)]\<rparr>
                  in case e1 of
                       Some e \<Rightarrow> w1
                     | None \<Rightarrow>
                         (case nodePrev ops h1 provided of
                            None \<Rightarrow> w1
                          | Some p1 \<Rightarrow>
                              (let (h2, e2) = bumpNeighbours ops h1 (getLocation p1)
                               in w1\<lparr>hostState := h2,
                                     effects := effects w1 @ [BumpNeighbours (getLocation p1)]\<rparr>)))
               else w))"

text \<open>
  The second \<open>try\<close> block (lines 187-200): the connect call; an exception is logged, and a
  \<open>DOMException\<close> reloads the page.
\<close>

definition connectProvided :: "'h joinerHost \<Rightarrow> node \<Rightarrow> location \<Rightarrow> 'h world \<Rightarrow> 'h world" where
  "connectProvided ops cn providedBlock w =
     (let (h1, e1) = connect ops (hostState w) (getLocation cn) providedBlock;
          w1 = w\<lparr>hostState := h1, effects := effects w @ [Connect (getLocation cn) providedBlock]\<rparr>
      in case e1 of
           None \<Rightarrow> w1
         | Some e \<Rightarrow>
             if e = DOMException then w1\<lparr>effects := effects w1 @ [Warn, Reload]\<rparr>
             else w1\<lparr>effects := effects w1 @ [Warn]\<rparr>)"

text \<open>
  \<open>attemptConnection_\<close> (lines 147-205). \<open>back\<close> is \<open>prev\<close> for a connection node of type
  \<open>NEXT\<close> or \<open>INPUT\<close> and \<open>next\<close> for \<open>PREVIOUS\<close> or \<open>OUTPUT\<close>; \<open>advance\<close> is assigned and
  never read. When \<open>back(provided)\<close> is \<open>null\<close>, \<open>back(provided).getLocation()\<close> (line 173)
  throws outside every \<open>try\<close>. The result is how the call ends, the world and the slots
  after it.
\<close>

definition backStep :: "'h joinerHost \<Rightarrow> asttype \<Rightarrow> ('h \<Rightarrow> node \<Rightarrow> node option) option" where
  "backStep ops t =
     (if t = NEXT \<or> t = INPUT then Some (nodePrev ops)
      else if t = PREVIOUS \<or> t = OUTPUT then Some (nodeNext ops)
      else None)"

definition attemptConnection ::
  "'h joinerHost \<Rightarrow> 'h world \<Rightarrow> joiner \<Rightarrow> unit outcome \<times> 'h world \<times> joiner" where
  "attemptConnection ops w j =
     (case blockNode j of
        None \<Rightarrow> (Returned (), w, j)
      | Some provided \<Rightarrow>
          (case connectionNode j of
             None \<Rightarrow> (Returned (), w, j)
           | Some cn \<Rightarrow>
               (case backStep ops (getType cn) of
                  None \<Rightarrow> (Returned (), w\<lparr>effects := effects w @ [Warn]\<rparr>, j)
                | Some bk \<Rightarrow>
                    (case bk (hostState w) provided of
                       None \<Rightarrow> (Threw TypeError, w, j)
                     | Some b \<Rightarrow>
                         (let providedBlock = getLocation b;
                              w1 = detachOld ops provided w;
                              w2 = connectProvided ops cn providedBlock w1
                          in (Returned (), w2, j\<lparr>connectionNode := None, blockNode := None\<rparr>))))))"

text \<open>
  \<open>push\<close> (lines 126-140). A \<open>STACK\<close> node points at a block too, so the class of the
  location decides, not the type of the node.
\<close>

definition push ::
  "'h joinerHost \<Rightarrow> node \<Rightarrow> 'h world \<Rightarrow> joiner \<Rightarrow> bool outcome \<times> 'h world \<times> joiner" where
  "push ops item w j =
     (case getLocation item of
        Block b \<Rightarrow>
          (case attemptConnection ops w (j\<lparr>blockNode := Some item\<rparr>) of
             (Returned u, r) \<Rightarrow> (Returned True, r)
           | (Threw e, r) \<Rightarrow> (Threw e, r))
      | Connection c \<Rightarrow>
          (case attemptConnection ops w (j\<lparr>connectionNode := Some item\<rparr>) of
             (Returned u, r) \<Rightarrow> (Returned True, r)
           | (Threw e, r) \<Rightarrow> (Threw e, r))
      | _ \<Rightarrow> (Returned False, w\<lparr>effects := effects w @ [Warn]\<rparr>, j))"

section \<open>The connection check\<close>

text \<open>
  Modelled from the spec: \<open>collect\<close>, a method of the host's \<open>ASTNode\<close> that is not part of the
  sources. The spec has the cursor ``step to next/previous sibling'' and ``produce an
  ancestor chain'', and the traversal ``expand each sibling in forward order''; the source
  calls \<open>firstStack.collect(n => n.next())\<close> and \<open>conn.collect(n => n.ascend())\<close>. \<open>collect\<close> is
  the list of the nodes met from the receiver on, the receiver first, by applying the step
  until it yields \<open>null\<close>. A walk that never ends is \<open>None\<close>.
\<close>

partial_function (option) collect :: "(node \<Rightarrow> node option) \<Rightarrow> node \<Rightarrow> node list option" where
  "collect step n =
     (case step n of
        None \<Rightarrow> Some [n]
      | Some m \<Rightarrow> Option.bind (collect step m) (\<lambda>rest. Some (n # rest)))"

declare collect.simps [code]

text \<open>
  The host operations \<open>checkConnection\<close> calls. \<open>checkConnectionThrows h a b\<close> tells whether
  the host's \<open>a.checkConnection_(b)\<close> throws; the source only distinguishes that.
\<close>

record 'h checkHost =
  checkConnectionThrows :: "'h \<Rightarrow> location \<Rightarrow> location \<Rightarrow> bool"
  nodeAscend :: "'h \<Rightarrow> node \<Rightarrow> node option"
  connectionSourceBlock :: "'h \<Rightarrow> nat \<Rightarrow> location option"
  fieldSourceBlock :: "'h \<Rightarrow> nat \<Rightarrow> location option"

text \<open>
  Modelled from the spec: which entities have the method \<open>getSourceBlock\<close>, a matter of the
  host's classes, which are not part of the sources. The spec has connections and fields as
  the parts of a block (``zero or more statement/value connections''); \<open>getSourceBlock\<close> is
  a method of connections and of fields, answered by the host, and on any other entity the
  call is a \<open>TypeError\<close>.
\<close>

definition getSourceBlock :: "'h checkHost \<Rightarrow> 'h \<Rightarrow> location \<Rightarrow> location option outcome" where
  "getSourceBlock ops h l =
     (case l of
        Connection c \<Rightarrow> Returned (connectionSourceBlock ops h c)
      | Field f \<Rightarrow> Returned (fieldSourceBlock ops h f)
      | _ \<Rightarrow> Threw TypeError)"

text \<open>
  The blocks above a connection node: \<open>conn.collect(n => n.ascend())\<close> filtered to the nodes
  of type \<open>BLOCK\<close> and mapped to their locations (lines 1454-1456).
\<close>

definition parentBlocks :: "'h checkHost \<Rightarrow> 'h \<Rightarrow> node \<Rightarrow> location list option" where
  "parentBlocks ops h conn =
     map_option (\<lambda>chain. map getLocation (filter (\<lambda>n. getType n = BLOCK) chain))
       (collect (nodeAscend ops h) conn)"

text \<open>
  \<open>Blockly.Linearization.checkConnection\<close> (lines 1447-1458). Either argument is \<open>None\<close>
  when the caller passes \<open>null\<close> (\<open>blockNode.prev()\<close> of a block without a predecessor
  connection, \<open>createConnectionNode\<close> of a missing connection); \<open>getLocation()\<close> of \<open>null\<close>
  then throws inside the \<open>try\<close>. The outer \<open>option\<close> is \<open>None\<close> when the walk up the ancestors
  never ends.
\<close>

definition checkConnection ::
  "'h checkHost \<Rightarrow> 'h \<Rightarrow> node option \<Rightarrow> node option \<Rightarrow> bool outcome option" where
  "checkConnection ops h conn blockConn =
     (case conn of
        None \<Rightarrow> Some (Returned False)
      | Some cn \<Rightarrow>
          (case blockConn of
             None \<Rightarrow> Some (Returned False)
           | Some bc \<Rightarrow>
               if checkConnectionThrows ops h (getLocation cn) (getLocation bc)
               then Some (Returned False)
               else
                 (case parentBlocks ops h cn of
                    None \<Rightarrow> None
                  | Some pbs \<Rightarrow>
                      (case getSourceBlock ops h (getLocation bc) of
                         Threw e \<Rightarrow> Some (Threw e)
                       | Returned sb \<Rightarrow> Some (Returned (sb \<notin> set (map Some pbs)))))))"

text \<open>
  What the claim about the check calls an ancestor of the target: a node is above another
  when steps of \<open>ascend\<close> lead from the second to the first; no step is needed, so a node
  is above itself (\<open>collect\<close> starts its list with the receiver).
\<close>

definition isAbove :: "'h checkHost \<Rightarrow> 'h \<Rightarrow> node \<Rightarrow> node \<Rightarrow> bool" where
  "isAbove ops h n a = rtranclp (\<lambda>x y. nodeAscend ops h x = Some y) n a"

section \<open>A small workspace\<close>

text \<open>
  A host with five blocks, used to run the code on concrete inputs. Block 1 is a loop whose
  body holds block 2, a loop whose body holds block 3; block 4 is a function definition, a
  block without predecessor connection; block 5 is a conditional with an empty body.
  Connections 10, 20, 30, 50 are the predecessor connections of blocks 1, 2, 3, 5; 11 and 21
  the body inputs of blocks 1 and 2; 12, 22, 32, 53 the successor connections of blocks 1, 2,
  3, 5; 41 the body input of block 4; 51 and 52 the condition and the body input of block 5.
  The host state is a unit: this host does not change.
\<close>

definition exPrev :: "unit \<Rightarrow> node \<Rightarrow> node option" where
  "exPrev h = map_of
     [(ASTNode BLOCK (Block 1), ASTNode PREVIOUS (Connection 10)),
      (ASTNode BLOCK (Block 2), ASTNode PREVIOUS (Connection 20)),
      (ASTNode BLOCK (Block 3), ASTNode PREVIOUS (Connection 30)),
      (ASTNode BLOCK (Block 5), ASTNode PREVIOUS (Connection 50)),
      (ASTNode PREVIOUS (Connection 20), ASTNode INPUT (Connection 11)),
      (ASTNode PREVIOUS (Connection 30), ASTNode INPUT (Connection 21)),
      (ASTNode NEXT (Connection 12), ASTNode BLOCK (Block 1)),
      (ASTNode NEXT (Connection 22), ASTNode BLOCK (Block 2)),
      (ASTNode NEXT (Connection 32), ASTNode BLOCK (Block 3)),
      (ASTNode NEXT (Connection 53), ASTNode BLOCK (Block 5))]"

definition exNext :: "unit \<Rightarrow> node \<Rightarrow> node option" where
  "exNext h = map_of
     [(ASTNode PREVIOUS (Connection 10), ASTNode BLOCK (Block 1)),
      (ASTNode PREVIOUS (Connection 20), ASTNode BLOCK (Block 2)),
      (ASTNode PREVIOUS (Connection 30), ASTNode BLOCK (Block 3)),
      (ASTNode BLOCK (Block 1), ASTNode NEXT (Connection 12)),
      (ASTNode BLOCK (Block 2), ASTNode NEXT (Connection 22)),
      (ASTNode BLOCK (Block 3), ASTNode NEXT (Connection 32)),
      (ASTNode PREVIOUS (Connection 50), ASTNode BLOCK (Block 5)),
      (ASTNode BLOCK (Block 5), ASTNode NEXT (Connection 53))]"

definition exAscend :: "unit \<Rightarrow> node \<Rightarrow> node option" where
  "exAscend h = map_of
     [(ASTNode NEXT (Connection 32), ASTNode BLOCK (Block 3)),
      (ASTNode PREVIOUS (Connection 30), ASTNode BLOCK (Block 3)),
      (ASTNode BLOCK (Block 3), ASTNode INPUT (Connection 21)),
      (ASTNode INPUT (Connection 21), ASTNode BLOCK (Block 2)),
      (ASTNode NEXT (Connection 22), ASTNode BLOCK (Block 2)),
      (ASTNode PREVIOUS (Connection 20), ASTNode BLOCK (Block 2)),
      (ASTNode BLOCK (Block 2), ASTNode INPUT (Connection 11)),
      (ASTNode INPUT (Connection 11), ASTNode BLOCK (Block 1)),
      (ASTNode NEXT (Connection 12), ASTNode BLOCK (Block 1)),
      (ASTNode PREVIOUS (Connection 10), ASTNode BLOCK (Block 1)),
      (ASTNode BLOCK (Block 1), ASTNode STACK (Block 1)),
      (ASTNode INPUT (Connection 41), ASTNode BLOCK (Block 4)),
      (ASTNode BLOCK (Block 4), ASTNode STACK (Block 4)),
      (ASTNode INPUT (Connection 51), ASTNode BLOCK (Block 5)),
      (ASTNode INPUT (Connection 52), ASTNode BLOCK (Block 5)),
      (ASTNode NEXT (Connection 53), ASTNode BLOCK (Block 5)),
      (ASTNode PREVIOUS (Connection 50), ASTNode BLOCK (Block 5)),
      (ASTNode BLOCK (Block 5), ASTNode STACK (Block 5)),
      (ASTNode STACK (Block 1), ASTNode WORKSPACE Workspace),
      (ASTNode STACK (Block 4), ASTNode WORKSPACE Workspace),
      (ASTNode STACK (Block 5), ASTNode WORKSPACE Workspace)]"

text \<open>
  The host's connect throws a \<open>DOMException\<close> when asked to hang block 1 below its own
  descendant, block 3, and succeeds otherwise; disconnecting and bumping succeed.
\<close>

definition exJoinerHost :: "unit joinerHost" where
  "exJoinerHost =
     \<lparr>nodeNext = exNext, nodePrev = exPrev,
      disconnect = (\<lambda>h l. (h, None)),
      bumpNeighbours = (\<lambda>h l. (h, None)),
      connect = (\<lambda>h a b. (h, if a = Connection 32 \<and> b = Connection 10
                                then Some DOMException else None))\<rparr>"

definition exCheckHost :: "unit checkHost" where
  "exCheckHost =
     \<lparr>checkConnectionThrows =
        (\<lambda>h a b. case a of
                    Connection c \<Rightarrow> (case b of Connection d \<Rightarrow> False | _ \<Rightarrow> True)
                  | _ \<Rightarrow> True),
      nodeAscend = exAscend,
      connectionSourceBlock = (\<lambda>h c. Some (Block (c div 10))),
      fieldSourceBlock = (\<lambda>h f. None)\<rparr>"

text \<open>
  The same workspace on a host whose own compatibility test never throws, whatever it is
  given.
\<close>

definition laxCheckHost :: "unit checkHost" where
  "laxCheckHost = exCheckHost\<lparr>checkConnectionThrows := (\<lambda>h a b. False)\<rparr>"

text \<open>How deep a node of this workspace lies: every step up makes it smaller.\<close>

definition exDepth :: "node \<Rightarrow> nat" where
  "exDepth n =
     (case getType n of
        WORKSPACE \<Rightarrow> 0
      | STACK \<Rightarrow> 1
      | BLOCK \<Rightarrow> (if n = ASTNode BLOCK (Block 2) then 4 else if n = ASTNode BLOCK (Block 3) then 6 else 2)
      | _ \<Rightarrow> (if n = ASTNode INPUT (Connection 11) then 3
              else if n = ASTNode INPUT (Connection 21) then 5
              else if n \<in> set [ASTNode NEXT (Connection 22), ASTNode PREVIOUS (Connection 20)] then 5
              else if n \<in> set [ASTNode NEXT (Connection 32), ASTNode PREVIOUS (Connection 30)] then 7
              else 3))"

definition emptyJoiner :: joiner where
  "emptyJoiner = \<lparr>blockNode = None, connectionNode = None\<rparr>"

definition exWorld :: "unit world" where
  "exWorld = \<lparr>hostState = (), effects = []\<rparr>"

text \<open>
  Three states of the joiner on this workspace. In \<open>cyclicMove\<close> block 1 is to be hung below
  block 3, its own descendant. In \<open>hatMove\<close> the function definition, block 4, is to be put
  into the empty body of the conditional; \<open>hatPicked\<close> is the state before the body
  connection is pushed.
\<close>

definition cyclicMove :: joiner where
  "cyclicMove = \<lparr>blockNode = Some (ASTNode BLOCK (Block 1)),
                 connectionNode = Some (ASTNode NEXT (Connection 32))\<rparr>"

definition hatPicked :: joiner where
  "hatPicked = \<lparr>blockNode = Some (ASTNode BLOCK (Block 4)), connectionNode = None\<rparr>"

definition hatMove :: joiner where
  "hatMove = \<lparr>blockNode = Some (ASTNode BLOCK (Block 4)),
              connectionNode = Some (ASTNode INPUT (Connection 52))\<rparr>"

section \<open>Rendered elements\<close>

text \<open>
  One arm of a conditional, as \<open>getIfBranches\<close> builds it (lines 1465-1497): \<open>key\<close>, \<open>type\<close>
  (1 for \<open>if\<close>, 2 for \<open>else if\<close>, 3 for \<open>else\<close>), \<open>text\<close>, and the condition and body
  parts. The fields an \<open>else\<close> arm does not get are \<open>None\<close>.
\<close>

record ifBranch =
  bKey :: nat
  bType :: nat
  bText :: string
  condIndex :: "nat option"
  condConnection :: "location option"
  condNode :: "node option"
  bodyIndex :: nat
  bodyConnection :: location
  bodyNode :: "node option"

text \<open>
  What the code builds is a tree of HTML elements. An element is kept as what the code
  puts into it: its text, its children and its click listener. \<open>Item t c\<close> is the list item
  of \<open>makeTextItem\<close> (a \<open>li\<close> holding a \<open>span\<close> with the text \<open>t\<close>) with the click listener
  \<open>c\<close>; \<open>PushNode n\<close> is the listener \<open>moveItemOnclick_(n)\<close>, which pushes \<open>n\<close> to the joiner,
  and \<open>GoTo n b\<close> the listener \<open>listItemOnclick_(n, b)\<close>. Styles, ids and ARIA attributes are
  left out.
\<close>

datatype click = NoClick | PushNode node | GoTo "node option" "ifBranch option"

datatype elem = Text string | Item string click | Ul "elem list" | Li "elem list"

definition makeTextItem :: "string \<Rightarrow> elem" where
  "makeTextItem t = Item t NoClick"

definition makeConnectionItem :: "node \<Rightarrow> string \<Rightarrow> elem" where
  "makeConnectionItem n t = Item t (PushNode n)"

section \<open>Selection and rendering\<close>

text \<open>
  A workspace event: the object itself (\<open>eventRef\<close>, what \<open>===\<close> compares), its \<open>type\<close>, its
  \<open>blockId\<close> (\<open>None\<close> when absent) and its \<open>element\<close>. A nullable event is an optional
  event, \<open>None\<close> for \<open>null\<close>.
\<close>

datatype eventType = BLOCK_MOVE | BLOCK_CREATE | UI | BLOCK_DELETE | FINISHED_LOADING | OTHER_EVENT

record event =
  eventRef :: nat
  etype :: eventType
  blockId :: "nat option"
  element :: string

text \<open>
  \<open>this.cooldown_\<close> holds a number (0, or the time \<open>startEventCooldown_\<close> wrote) or, after
  line 304, a boolean. \<open>truthy\<close> and \<open>toNumber\<close> are JavaScript's conversions.
\<close>

datatype jsval = Num int | Bool bool

fun truthy :: "jsval \<Rightarrow> bool" where
  "truthy (Num n) = (n \<noteq> 0)"
| "truthy (Bool b) = b"

fun toNumber :: "jsval \<Rightarrow> int" where
  "toNumber (Num n) = n"
| "toNumber (Bool b) = (if b then 1 else 0)"

text \<open>
  The fields of \<^verbatim>\<open>Blockly.Linearization\<close> the code writes (lines 28-90, and \<open>selected\<close>,
  \<open>lastHighlighted\<close> and \<open>marker\<close>, which appear on first assignment). \<open>branch\<close> is the
  property \<open>branch\<close> of the selected node. \<open>parentNav\<close> and \<open>mainNavList\<close> hold the children
  of the two containers.
\<close>

record lin =
  selected :: "node option"
  branch :: "ifBranch option"
  cooldown :: jsval
  blockJoiner :: joiner
  pendingRenderEvent :: "event option"
  parentNav :: "elem list"
  mainNavList :: "elem list"
  lastHighlighted :: "location option"
  marker :: string

record 'h workspaceHost =
  getAllBlocks :: "'h \<Rightarrow> nat list"
  getBlockById :: "'h \<Rightarrow> nat \<Rightarrow> location option"

text \<open>
  The three builders \<open>generateList_\<close> calls: \<open>generateParentNav_\<close> (lines 358-422),
  \<open>makeBlockSpecificView_\<close> (lines 591-642) and \<open>makeWorkspaceView_\<close> (lines 431-444), which
  also leaves a marker in \<open>this.marker\<close>. They read the host and the fields above and
  write none of them but the marker; here they enter \<open>generateList_\<close> as parameters.
\<close>

record 'h builders =
  buildParentNav :: "'h \<Rightarrow> lin \<Rightarrow> elem list"
  buildBlockSpecificView :: "'h \<Rightarrow> lin \<Rightarrow> node \<Rightarrow> elem list"
  buildWorkspaceView :: "'h \<Rightarrow> lin \<Rightarrow> elem list \<times> string"

text \<open>
  \<open>generateList_\<close> below its first test (lines 264-280): the part that runs when the
  workspace has blocks, after the event has been dealt with.
\<close>

definition redraw :: "'h builders \<Rightarrow> 'h \<Rightarrow> lin \<Rightarrow> lin" where
  "redraw B h st =
     (let st1 = st\<lparr>parentNav := buildParentNav B h st\<rparr>
      in case selected st1 of
           Some n \<Rightarrow> st1\<lparr>mainNavList := buildBlockSpecificView B h st1 n\<rparr>
         | None \<Rightarrow>
             (let (l, m) = buildWorkspaceView B h st1
              in st1\<lparr>mainNavList := l, marker := m\<rparr>))"

text \<open>\<open>generateList_()\<close> called without an event (lines 251-281).\<close>

definition generateListNoEvent :: "'h builders \<Rightarrow> 'h workspaceHost \<Rightarrow> 'h \<Rightarrow> lin \<Rightarrow> lin" where
  "generateListNoEvent B ws h st =
     (if getAllBlocks ws h = []
      then st\<lparr>parentNav := [Text ''(empty workspace)''], mainNavList := []\<rparr>
      else redraw B h st)"

text \<open>
  \<open>listItemOnclick_\<close> (lines 1368-1375) with \<open>highlightBlock\<close> (lines 1405-1411); the calls
  of \<open>setHighlighted\<close> on the host's blocks are not recorded.
\<close>

definition listItemOnclick ::
  "'h builders \<Rightarrow> 'h workspaceHost \<Rightarrow> 'h \<Rightarrow> node option \<Rightarrow> ifBranch option \<Rightarrow> lin \<Rightarrow> lin" where
  "listItemOnclick B ws h n b st =
     generateListNoEvent B ws h
       (st\<lparr>lastHighlighted := map_option getLocation n,
           selected := n,
           branch := (case n of Some x \<Rightarrow> b | None \<Rightarrow> None)\<rparr>)"

text \<open>\<open>startEventCooldown_\<close> (lines 347-349).\<close>

definition startEventCooldown :: "int \<Rightarrow> lin \<Rightarrow> lin" where
  "startEventCooldown now st = st\<lparr>cooldown := Num (now + 100)\<rparr>"

text \<open>
  Modelled from the spec: \<open>Blockly.ASTNode.createBlockNode\<close> of the host, which is not part
  of the sources (``construct/derive an AST cursor for a specific block''). It makes the
  node of type \<open>BLOCK\<close> that points at the block. Without a block there is no cursor to
  derive: called with \<open>null\<close>, the constructor of the host's node throws an \<open>Error\<close>.
\<close>

definition createBlockNode :: "location option \<Rightarrow> node outcome" where
  "createBlockNode b =
     (case b of None \<Rightarrow> Threw Error | Some l \<Rightarrow> Returned (ASTNode BLOCK l))"

text \<open>\<open>block && Blockly.ASTNode.createBlockNode(block)\<close> (lines 314 and 318): \<open>null\<close> stays.\<close>

definition guardedBlockNode :: "location option \<Rightarrow> node option outcome" where
  "guardedBlockNode block =
     (case block of
        None \<Rightarrow> Returned None
      | Some l \<Rightarrow>
          (case createBlockNode (Some l) of
             Returned n \<Rightarrow> Returned (Some n)
           | Threw x \<Rightarrow> Threw x))"

text \<open>
  \<open>alterSelectedWithEvent_\<close> (lines 303-341). \<open>now\<close> is what \<open>new Date().getTime()\<close> returns
  during the call. Line 304 is \<open>this.cooldown_ = this.cooldown_ && this.cooldown_ < now\<close>.
  An event of a type the \<open>switch\<close> does not name leaves \<open>node\<close> undefined. Line 330 calls
  \<open>createBlockNode\<close> without the guard of lines 314 and 318. \<open>alterSelectedWithEventRun\<close> is
  the call: how it ends, and the fields it leaves; \<open>alterSelectedWithEvent\<close> is the
  fields it leaves.
\<close>

definition cooldownAt :: "int \<Rightarrow> jsval \<Rightarrow> jsval" where
  "cooldownAt now c = (if truthy c then Bool (toNumber c < now) else c)"

definition alterSelectedWithEventRun ::
  "'h builders \<Rightarrow> 'h workspaceHost \<Rightarrow> 'h \<Rightarrow> int \<Rightarrow> event \<Rightarrow> lin \<Rightarrow> unit outcome \<times> lin" where
  "alterSelectedWithEventRun B ws h now e st =
     (let st1 = st\<lparr>cooldown := cooldownAt now (cooldown st)\<rparr>
      in case etype e of
           BLOCK_MOVE \<Rightarrow>
             if truthy (cooldown st1) then (Returned (), st1)
             else
               (let block = (case blockId e of None \<Rightarrow> None | Some i \<Rightarrow> getBlockById ws h i)
                in case guardedBlockNode block of
                     Returned n \<Rightarrow> (Returned (), listItemOnclick B ws h n None st1)
                   | Threw x \<Rightarrow> (Threw x, st1))
         | BLOCK_CREATE \<Rightarrow>
             (let block = (case blockId e of None \<Rightarrow> None | Some i \<Rightarrow> getBlockById ws h i)
              in case guardedBlockNode block of
                   Returned n \<Rightarrow>
                     (let st2 = (if n \<noteq> None then startEventCooldown now st1 else st1)
                      in (Returned (), listItemOnclick B ws h n None st2))
                 | Threw x \<Rightarrow> (Threw x, st1))
         | UI \<Rightarrow>
             if element e \<noteq> ''selected'' \<and> element e \<noteq> ''click''
             then (Returned (), listItemOnclick B ws h (selected st1) None st1)
             else
               (case blockId e of
                  None \<Rightarrow> (Returned (), listItemOnclick B ws h None None st1)
                | Some i \<Rightarrow>
                    (case createBlockNode (getBlockById ws h i) of
                       Returned n \<Rightarrow> (Returned (), listItemOnclick B ws h (Some n) None st1)
                     | Threw x \<Rightarrow> (Threw x, st1)))
         | BLOCK_DELETE \<Rightarrow> (Returned (), listItemOnclick B ws h None None st1)
         | FINISHED_LOADING \<Rightarrow> (Returned (), listItemOnclick B ws h None None st1)
         | OTHER_EVENT \<Rightarrow> (Returned (), listItemOnclick B ws h None None st1))"

definition alterSelectedWithEvent ::
  "'h builders \<Rightarrow> 'h workspaceHost \<Rightarrow> 'h \<Rightarrow> int \<Rightarrow> event \<Rightarrow> lin \<Rightarrow> lin" where
  "alterSelectedWithEvent B ws h now e st = snd (alterSelectedWithEventRun B ws h now e st)"

text \<open>
  \<open>generateList_(e)\<close> (lines 251-281); \<open>e\<close> is \<open>None\<close> for \<open>null\<close> or a missing argument. An
  exception that leaves \<open>alterSelectedWithEvent_\<close> leaves \<open>generateList_\<close> before anything
  is drawn. \<open>generateListRun\<close> is the call, \<open>generateList\<close> the fields it leaves.
\<close>

definition generateListRun ::
  "'h builders \<Rightarrow> 'h workspaceHost \<Rightarrow> 'h \<Rightarrow> int \<Rightarrow> event option \<Rightarrow> lin
     \<Rightarrow> unit outcome \<times> lin" where
  "generateListRun B ws h now e st =
     (if getAllBlocks ws h = []
      then (Returned (), st\<lparr>parentNav := [Text ''(empty workspace)''], mainNavList := []\<rparr>)
      else
        (case e of
           None \<Rightarrow> (Returned (), redraw B h st)
         | Some ev \<Rightarrow>
             (case alterSelectedWithEventRun B ws h now ev st of
                (Returned u, st1) \<Rightarrow> (Returned (), redraw B h st1)
              | (Threw x, st1) \<Rightarrow> (Threw x, st1))))"

definition generateList ::
  "'h builders \<Rightarrow> 'h workspaceHost \<Rightarrow> 'h \<Rightarrow> int \<Rightarrow> event option \<Rightarrow> lin \<Rightarrow> lin" where
  "generateList B ws h now e st = snd (generateListRun B ws h now e st)"

text \<open>
  Inputs for running the code: the workspace of section ``A small workspace'' seen through
  \<open>getAllBlocks\<close> and \<open>getBlockById\<close>, a workspace without blocks, builders that put a fixed
  line into each container, the state of a fresh \<open>Linearization\<close>, and three events.
\<close>

definition exWorkspace :: "unit workspaceHost" where
  "exWorkspace =
     \<lparr>getAllBlocks = (\<lambda>h. [1, 2, 3, 4, 5]),
      getBlockById = (\<lambda>h i. if i \<in> set [1, 2, 3, 4, 5] then Some (Block i) else None)\<rparr>"

definition blankWorkspace :: "unit workspaceHost" where
  "blankWorkspace = \<lparr>getAllBlocks = (\<lambda>h. []), getBlockById = (\<lambda>h i. None)\<rparr>"

definition plainBuilders :: "unit builders" where
  "plainBuilders =
     \<lparr>buildParentNav = (\<lambda>h st. [Text ''workspace > '']),
      buildBlockSpecificView = (\<lambda>h st n. [Ul [makeTextItem ''block'']]),
      buildWorkspaceView = (\<lambda>h st. ([Ul [makeTextItem ''stacks'']], ''B''))\<rparr>"

definition freshLin :: lin where
  "freshLin =
     \<lparr>selected = None, branch = None, cooldown = Num 0, blockJoiner = emptyJoiner,
      pendingRenderEvent = None, parentNav = [], mainNavList = [], lastHighlighted = None,
      marker = ''''\<rparr>"

definition createBlock1 :: event where
  "createBlock1 = \<lparr>eventRef = 1, etype = BLOCK_CREATE, blockId = Some 1, element = ''''\<rparr>"

definition moveBlock2 :: event where
  "moveBlock2 = \<lparr>eventRef = 2, etype = BLOCK_MOVE, blockId = Some 2, element = ''''\<rparr>"

definition moveBlock3 :: event where
  "moveBlock3 = \<lparr>eventRef = 3, etype = BLOCK_MOVE, blockId = Some 3, element = ''''\<rparr>"

text \<open>A selection with a branch and a move under way, to be looked at after an empty render.\<close>

definition busyLin :: lin where
  "busyLin =
     freshLin\<lparr>selected := Some (ASTNode BLOCK (Block 5)),
              branch := Some \<lparr>bKey = 0, bType = 1, bText = ''if'', condIndex = Some 0,
                              condConnection = Some (Connection 51), condNode = None,
                              bodyIndex = 1, bodyConnection = Connection 52, bodyNode = None\<rparr>,
              cooldown := Num 1100,
              blockJoiner := hatPicked,
              mainNavList := [Ul [makeTextItem ''old'']]\<rparr>"

section \<open>The change listener\<close>

text \<open>
  \<open>===\<close> on nullable events: \<open>null\<close> is identical to \<open>null\<close> only, and an event to itself only.
\<close>

definition identical :: "event option \<Rightarrow> event option \<Rightarrow> bool" where
  "identical a b = (map_option eventRef a = map_option eventRef b)"

text \<open>
  \<open>onChange\<close> (lines 225-244), called at time \<open>now\<close>: it records the event and sets a timer.
  The result is the new state and the timer: the time it is due and the event its callback
  has captured.
\<close>

definition onChange :: "event option \<Rightarrow> int \<Rightarrow> lin \<Rightarrow> lin \<times> (int \<times> event option)" where
  "onChange e now st = (st\<lparr>pendingRenderEvent := e\<rparr>, (now + 100, e))"

text \<open>
  The callback of the timer (lines 234-242), run at time \<open>now\<close> on the host state \<open>h\<close>. The
  boolean tells whether it went on to render; the rejection of the promise is only logged,
  and an exception that leaves \<open>generateList_\<close> leaves the callback with the fields as they
  are at that moment.
\<close>

definition timeoutCallback ::
  "'h builders \<Rightarrow> 'h workspaceHost \<Rightarrow> 'h \<Rightarrow> int \<Rightarrow> event option \<Rightarrow> lin \<Rightarrow> bool \<times> lin" where
  "timeoutCallback B ws h now e st =
     (if identical (pendingRenderEvent st) e
      then (True, generateList B ws h now e (st\<lparr>pendingRenderEvent := None\<rparr>))
      else (False, st))"

text \<open>
  The single thread of the page, run on the notifications still to come (each with the time
  it arrives) and the timers set and not yet run (oldest first). The earlier of the next
  notification and the oldest timer is next; a timer that is due runs before a
  notification of the same instant. \<open>W t\<close> is the host state at time \<open>t\<close>. The result is
  the list of the renders that ran, each with its time and its event, and the last state.
\<close>

fun eventLoop ::
  "'h builders \<Rightarrow> 'h workspaceHost \<Rightarrow> (int \<Rightarrow> 'h) \<Rightarrow> (int \<times> event option) list
     \<Rightarrow> (int \<times> event option) list \<Rightarrow> lin \<Rightarrow> (int \<times> event option) list \<times> lin" where
  "eventLoop B ws W [] [] st = ([], st)"
| "eventLoop B ws W ((t, e) # notes) [] st =
     eventLoop B ws W notes [snd (onChange e t st)] (fst (onChange e t st))"
| "eventLoop B ws W [] ((due, ev) # timers) st =
     (let r = timeoutCallback B ws (W due) due ev st;
          rest = eventLoop B ws W [] timers (snd r)
      in ((if fst r then [(due, ev)] else []) @ fst rest, snd rest))"
| "eventLoop B ws W ((t, e) # notes) ((due, ev) # timers) st =
     (if t < due
      then eventLoop B ws W notes (((due, ev) # timers) @ [snd (onChange e t st)])
             (fst (onChange e t st))
      else
        (let r = timeoutCallback B ws (W due) due ev st;
             rest = eventLoop B ws W ((t, e) # notes) timers (snd r)
         in ((if fst r then [(due, ev)] else []) @ fst rest, snd rest)))"

text \<open>
  A burst: the notifications arrive in order of time, each less than 100 milliseconds after
  the one before.
\<close>

fun burst :: "(int \<times> event option) list \<Rightarrow> bool" where
  "burst [] = True"
| "burst [x] = True"
| "burst (x # y # r) = (fst x \<le> fst y \<and> fst y < fst x + 100 \<and> burst (y # r))"

definition changeEvent :: "nat \<Rightarrow> event" where
  "changeEvent r = \<lparr>eventRef = r, etype = OTHER_EVENT, blockId = None, element = ''''\<rparr>"

text \<open>What \<open>===\<close> sees of a notification: the identity of its event, \<open>None\<close> for \<open>null\<close>.\<close>

definition eventIdentity :: "int \<times> event option \<Rightarrow> nat option" where
  "eventIdentity x = map_option eventRef (snd x)"

section \<open>Building the list\<close>

text \<open>
  A builder may throw, and may walk the host's nodes without end. Its result is an optional
  outcome: \<open>None\<close> when it does not return, \<open>Some (Threw e)\<close> when an exception leaves it,
  \<open>Some (Returned x)\<close> otherwise. \<open>bindC\<close> runs one computation after another, \<open>mapC\<close> is
  \<open>Array.prototype.map\<close> with a callback that may throw, \<open>filterC\<close> is
  \<open>Array.prototype.filter\<close>.
\<close>

definition ret :: "'a \<Rightarrow> 'a outcome option" where
  "ret x = Some (Returned x)"

definition throw :: "exn \<Rightarrow> 'a outcome option" where
  "throw e = Some (Threw e)"

definition bindC :: "'a outcome option \<Rightarrow> ('a \<Rightarrow> 'b outcome option) \<Rightarrow> 'b outcome option" where
  "bindC m f =
     (case m of
        None \<Rightarrow> None
      | Some (Threw e) \<Rightarrow> Some (Threw e)
      | Some (Returned x) \<Rightarrow> f x)"

fun mapC :: "('a \<Rightarrow> 'b outcome option) \<Rightarrow> 'a list \<Rightarrow> 'b list outcome option" where
  "mapC f [] = ret []"
| "mapC f (x # xs) = bindC (f x) (\<lambda>y. bindC (mapC f xs) (\<lambda>ys. ret (y # ys)))"

fun filterC :: "('a \<Rightarrow> bool outcome option) \<Rightarrow> 'a list \<Rightarrow> 'a list outcome option" where
  "filterC p [] = ret []"
| "filterC p (x # xs) =
     bindC (p x) (\<lambda>b. bindC (filterC p xs) (\<lambda>ys. ret (if b then x # ys else ys)))"

definition walk :: "node list option \<Rightarrow> node list outcome option" where
  "walk r = (case r of None \<Rightarrow> None | Some ns \<Rightarrow> ret ns)"

text \<open>
  What the builders read from the host: the steps of \<open>ASTNode\<close> (\<open>next\<close>, \<open>prev\<close>, \<open>in\<close>,
  \<open>nextBlock\<close>, \<open>inBlock\<close>), \<open>createConnectionNode\<close>, and of a block its \<open>type\<close>, its
  \<open>makeAriaLabel()\<close>, whether it has an \<open>outputConnection\<close>, \<open>getParent()\<close>,
  \<open>getRootBlock()\<close> and the text of the field \<open>inputList[0].fieldRow[1]\<close>; the type of the
  parent input of a node and of a connection (\<open>None\<close> when there is no parent input).
\<close>

record 'h renderHost =
  checks :: "'h checkHost"
  astNext :: "'h \<Rightarrow> node \<Rightarrow> node option"
  astPrev :: "'h \<Rightarrow> node \<Rightarrow> node option"
  astIn :: "'h \<Rightarrow> node \<Rightarrow> node option"
  astNextBlock :: "'h \<Rightarrow> node \<Rightarrow> node option"
  astInBlock :: "'h \<Rightarrow> node \<Rightarrow> node option"
  connectionNodeOf :: "'h \<Rightarrow> location \<Rightarrow> node option"
  blockTypeOf :: "'h \<Rightarrow> location \<Rightarrow> string"
  makeAriaLabel :: "'h \<Rightarrow> location \<Rightarrow> string"
  hasOutputConnection :: "'h \<Rightarrow> location \<Rightarrow> bool"
  getParent :: "'h \<Rightarrow> location \<Rightarrow> location option"
  getRootBlock :: "'h \<Rightarrow> location \<Rightarrow> location"
  whileUntilMode :: "'h \<Rightarrow> location \<Rightarrow> string"
  nodeParentInputType :: "'h \<Rightarrow> node \<Rightarrow> nat option"
  locationParentInputType :: "'h \<Rightarrow> location \<Rightarrow> nat option"

text \<open>
  Modelled from the spec: \<open>Blockly.ASTNode.createConnectionNode\<close> of the host, which is not
  part of the sources (``construct/derive an AST cursor for a specific connection''). The
  node of a connection is the host's to say (\<open>connectionNodeOf\<close>); \<open>null\<close> and \<open>undefined\<close>
  are handed through.
\<close>

definition createConnectionNode :: "'h renderHost \<Rightarrow> 'h \<Rightarrow> location option \<Rightarrow> node option" where
  "createConnectionNode R h c = (case c of None \<Rightarrow> None | Some l \<Rightarrow> connectionNodeOf R h l)"

text \<open>\<open>x.in()\<close> followed by \<open>.next()\<close>, each guarded by \<open>&&\<close> (lines 1483-1484, 1490-1491).\<close>

definition inThenNext :: "'h renderHost \<Rightarrow> 'h \<Rightarrow> node \<Rightarrow> node option" where
  "inThenNext R h c = (case astIn R h c of None \<Rightarrow> None | Some x \<Rightarrow> astNext R h x)"

text \<open>
  \<open>getIfBranches\<close> (lines 1465-1497). \<open>branchesFrom\<close> is the loop, started at index \<open>i\<close> on the
  children from \<open>i\<close> on: a last child alone is the \<open>else\<close> arm, two children are a condition
  and a body.
\<close>

fun branchesFrom :: "'h renderHost \<Rightarrow> 'h \<Rightarrow> nat \<Rightarrow> node list \<Rightarrow> ifBranch list" where
  "branchesFrom R h i [] = []"
| "branchesFrom R h i [c] =
     [\<lparr>bKey = i div 2, bType = 3, bText = ''else'', condIndex = None, condConnection = None,
       condNode = None, bodyIndex = i, bodyConnection = getLocation c,
       bodyNode = inThenNext R h c\<rparr>]"
| "branchesFrom R h i (c # b # rest) =
     \<lparr>bKey = i div 2, bType = (if i \<noteq> 0 then 2 else 1),
      bText = (if i \<noteq> 0 then ''else if'' else ''if''), condIndex = Some i,
      condConnection = Some (getLocation c), condNode = inThenNext R h c,
      bodyIndex = i + 1, bodyConnection = getLocation b, bodyNode = inThenNext R h b\<rparr>
     # branchesFrom R h (i + 2) rest"

definition getIfBranches :: "'h renderHost \<Rightarrow> 'h \<Rightarrow> node \<Rightarrow> ifBranch list outcome option" where
  "getIfBranches R h ifNode =
     (case astIn R h ifNode of
        None \<Rightarrow> throw TypeError
      | Some c \<Rightarrow> bindC (walk (collect (astNext R h) c)) (\<lambda>children. ret (branchesFrom R h 0 children)))"

text \<open>
  \<open>getNestingBlockName\<close> (lines 1505-1521); \<open>None\<close> is \<open>undefined\<close>. \<open>blockNames\<close> is an
  object literal, so \<open>blockNames[block.type]\<close> also finds what the literal inherits from
  \<open>Object.prototype\<close>: for a block whose type is the name of such a property the result is a
  built-in function (for \<open>__proto__\<close> the prototype object), which is truthy, and
  \<open>'end ' + nestedName\<close> holds its text. The language leaves the text of a built-in
  function to the engine within the form \<open>function name() { [native code] }\<close>; that form is
  taken here.
\<close>

definition objectPrototypeText :: "string \<Rightarrow> string option" where
  "objectPrototypeText key =
     (if key = ''__proto__'' then Some ''[object Object]''
      else if key = ''constructor'' then Some ''function Object() { [native code] }''
      else if key \<in> set [''__defineGetter__'', ''__defineSetter__'', ''__lookupGetter__'',
                           ''__lookupSetter__'', ''hasOwnProperty'', ''isPrototypeOf'',
                           ''propertyIsEnumerable'', ''toLocaleString'', ''toString'', ''valueOf'']
      then Some (''function '' @ key @ ''() { [native code] }'')
      else None)"

definition getNestingBlockName :: "'h renderHost \<Rightarrow> 'h \<Rightarrow> location \<Rightarrow> string option" where
  "getNestingBlockName R h block =
     (if blockTypeOf R h block = ''controls_whileUntil'' \<and> whileUntilMode R h block = ''until''
      then Some ''repeat until''
      else
        (case map_of
                [(''controls_if'', ''if''),
                 (''controls_repeat_ext'', ''repeat''),
                 (''controls_forEach'', ''for each''),
                 (''controls_for'', ''for''),
                 (''procedures_defnoreturn'', ''function''),
                 (''procedures_defreturn'', ''function''),
                 (''controls_whileUntil'', ''repeat while'')]
                (blockTypeOf R h block) of
           Some name \<Rightarrow> Some name
         | None \<Rightarrow> objectPrototypeText (blockTypeOf R h block)))"

text \<open>
  \<open>makeBlockItem_\<close> (lines 1109-1125). The two \<open>id\<close>s are equal when the two locations are
  the same block.
\<close>

definition makeBlockItem :: "'h renderHost \<Rightarrow> 'h \<Rightarrow> lin \<Rightarrow> node \<Rightarrow> ifBranch option \<Rightarrow> elem" where
  "makeBlockItem R h st n b =
     (let t = makeAriaLabel R h (getLocation n)
      in Item (case blockNode (blockJoiner st) of
                 None \<Rightarrow> t
               | Some bn \<Rightarrow> if getLocation bn = getLocation n then t @ '' (moving me...)'' else t)
           (GoTo (Some n) b))"

text \<open>
  \<open>makeIfBracketItem_\<close> (lines 1069-1097). Whatever is thrown inside the \<open>try\<close>, a \<open>null\<close>
  block slot included, ends in the item of the \<open>catch\<close>, which is the item of the \<open>else\<close>.
\<close>

definition bracketText :: "'h renderHost \<Rightarrow> 'h \<Rightarrow> ifBranch \<Rightarrow> string" where
  "bracketText R h br =
     (if bType br \<noteq> 3
      then bText br @ '' ''
           @ (case condNode br of
                Some c \<Rightarrow> makeAriaLabel R h (getLocation c)
              | None \<Rightarrow> ''NOTHING'')
           @ '' do''
      else bText br)"

definition makeIfBracketItem ::
  "'h renderHost \<Rightarrow> 'h \<Rightarrow> lin \<Rightarrow> node \<Rightarrow> ifBranch \<Rightarrow> elem outcome option" where
  "makeIfBracketItem R h st n br =
     (let t = bracketText R h br;
          plain = Item t (GoTo (Some n) (Some br))
      in case blockNode (blockJoiner st) of
           None \<Rightarrow> ret plain
         | Some bn \<Rightarrow>
             (let ccn = createConnectionNode R h (condConnection br)
              in case checkConnection (checks R) h ccn (astPrev R h bn) of
                   None \<Rightarrow> None
                 | Some (Threw e) \<Rightarrow> ret plain
                 | Some (Returned ok) \<Rightarrow>
                     (case ccn of
                        Some c \<Rightarrow>
                          if ok then ret (makeConnectionItem c (t @ '' (click to fill)''))
                          else ret plain
                      | None \<Rightarrow> ret plain)))"

text \<open>
  \<open>makePrevConnectionItem_\<close> (lines 682-698) and \<open>makeNextConnectionItem_\<close> (lines 707-720);
  \<open>None\<close> is the \<open>null\<close> they return. The node handed in comes out of a walk and is a new
  object, so \<open>blockNode !== node\<close> holds and \<open>display\<close> is the block slot.
\<close>

definition makePrevConnectionItem ::
  "'h renderHost \<Rightarrow> 'h \<Rightarrow> lin \<Rightarrow> node \<Rightarrow> elem option outcome option" where
  "makePrevConnectionItem R h st n =
     (case blockNode (blockJoiner st) of
        None \<Rightarrow> ret None
      | Some bn \<Rightarrow>
          (case astPrev R h n of
             None \<Rightarrow> ret None
           | Some prevConn \<Rightarrow>
               if (case astPrev R h prevConn of None \<Rightarrow> True | Some pp \<Rightarrow> getType pp \<noteq> NEXT)
               then
                 bindC (checkConnection (checks R) h (Some prevConn) (astNext R h bn))
                   (\<lambda>ok. if ok then
                            (case astPrev R h prevConn of
                               Some pp \<Rightarrow>
                                 if getType pp = INPUT
                                 then ret (Some (makeConnectionItem pp ''Insert above''))
                                 else ret (Some (makeConnectionItem prevConn ''Insert above''))
                             | None \<Rightarrow> ret (Some (makeConnectionItem prevConn ''Insert above'')))
                          else ret None)
               else ret None))"

definition makeNextConnectionItem ::
  "'h renderHost \<Rightarrow> 'h \<Rightarrow> lin \<Rightarrow> node \<Rightarrow> elem option outcome option" where
  "makeNextConnectionItem R h st n =
     (case blockNode (blockJoiner st) of
        None \<Rightarrow> ret None
      | Some bn \<Rightarrow>
          (case astNext R h n of
             None \<Rightarrow> ret None
           | Some nextConn \<Rightarrow>
               bindC (checkConnection (checks R) h (Some nextConn) (astPrev R h bn))
                 (\<lambda>ok. if ok then
                          (let last = (case astNext R h nextConn of
                                         None \<Rightarrow> True
                                       | Some nn \<Rightarrow> getType nn \<noteq> PREVIOUS)
                           in ret (Some (makeConnectionItem nextConn
                                 (if last then ''Insert below'' else ''Insert between''))))
                        else ret None)))"

text \<open>
  \<open>makeNodeItems_\<close> (lines 652-672): the array, with its properties \<open>first\<close>, \<open>main\<close> and
  \<open>final\<close>.
\<close>

record nodeItems =
  firstItem :: "elem option"
  mainItem :: elem
  finalItem :: "elem option"

definition itemsOf :: "nodeItems \<Rightarrow> elem list" where
  "itemsOf ni =
     (case firstItem ni of None \<Rightarrow> [] | Some e \<Rightarrow> [e])
     @ [mainItem ni]
     @ (case finalItem ni of None \<Rightarrow> [] | Some e \<Rightarrow> [e])"

definition makeNodeItems :: "'h renderHost \<Rightarrow> 'h \<Rightarrow> lin \<Rightarrow> node \<Rightarrow> nodeItems outcome option" where
  "makeNodeItems R h st n =
     bindC (makePrevConnectionItem R h st n) (\<lambda>p.
       bindC (makeNextConnectionItem R h st n) (\<lambda>x.
         ret \<lparr>firstItem = p, mainItem = makeBlockItem R h st n None, finalItem = x\<rparr>))"

text \<open>The decimal digits of a counter, as \<open>' ' + n\<close> writes them.\<close>

function showNat :: "nat \<Rightarrow> string" where
  "showNat n =
     (if n < 10 then [char_of (48 + n)] else showNat (n div 10) @ [char_of (48 + n mod 10)])"
  by pat_completeness auto
termination
  by (relation "measure id") auto

declare showNat.simps [simp del]

text \<open>
  \<open>makeInnerInputList_\<close> (lines 729-763). \<open>labelInputs\<close> is the final \<open>map\<close>, with the two
  counters of \<open>tracker\<close>; \<open>INPUT_VALUE\<close> is 1.
\<close>

definition hasInputParent :: "'h renderHost \<Rightarrow> 'h \<Rightarrow> node \<Rightarrow> bool" where
  "hasInputParent R h n = (nodeParentInputType R h n = Some 1)"

fun labelInputs ::
  "'h renderHost \<Rightarrow> 'h \<Rightarrow> nat \<Rightarrow> nat \<Rightarrow> nat \<Rightarrow> nat \<Rightarrow> node list \<Rightarrow> elem list" where
  "labelInputs R h inlines withins tackVal insertVal [] = []"
| "labelInputs R h inlines withins tackVal insertVal (n # ns) =
     (if hasInputParent R h n
      then makeConnectionItem n
             (''Tack on side'' @ (if inlines \<le> 1 then '''' else '' '' @ showNat tackVal))
           # labelInputs R h inlines withins
               (if inlines \<le> 1 then tackVal else tackVal + 1) insertVal ns
      else makeConnectionItem n
             (''Insert within'' @ (if withins \<le> 1 then '''' else '' '' @ showNat insertVal))
           # labelInputs R h inlines withins tackVal
               (if withins \<le> 1 then insertVal else insertVal + 1) ns)"

definition makeInnerInputList ::
  "'h renderHost \<Rightarrow> 'h \<Rightarrow> lin \<Rightarrow> node \<Rightarrow> elem list outcome option" where
  "makeInnerInputList R h st rootNode =
     (case blockNode (blockJoiner st) of
        None \<Rightarrow> ret []
      | Some bn \<Rightarrow>
          (case astIn R h rootNode of
             None \<Rightarrow> throw TypeError
           | Some c \<Rightarrow>
               bindC (walk (collect (astNext R h) c)) (\<lambda>inNodeSeq.
                 (let inlines = length (filter (hasInputParent R h) inNodeSeq);
                      withins = length inNodeSeq - inlines;
                      shown = filter (\<lambda>n. selected st \<noteq> None \<or> \<not> hasInputParent R h n) inNodeSeq
                  in bindC (filterC (\<lambda>n. checkConnection (checks R) h (Some n) (astPrev R h bn)) shown)
                       (\<lambda>fitting. ret (labelInputs R h inlines withins 1 1 fitting))))))"

text \<open>
  \<open>makeReturnItem_\<close> (lines 1302-1325). The \<open>while\<close> loop looks for the first node of type
  \<open>INPUT\<close> from \<open>rootNode.in()\<close> on; \<open>find\<close> then looks, from that node on, for the first node
  whose connection has a parent input of type 1.
\<close>

definition makeReturnItem :: "'h renderHost \<Rightarrow> 'h \<Rightarrow> lin \<Rightarrow> node \<Rightarrow> elem outcome option" where
  "makeReturnItem R h st rootNode =
     (case astIn R h rootNode of
        None \<Rightarrow> throw TypeError
      | Some c \<Rightarrow>
          bindC (walk (collect (astNext R h) c)) (\<lambda>chain.
            (case dropWhile (\<lambda>n. getType n \<noteq> INPUT) chain of
               [] \<Rightarrow> throw TypeError
             | inNode # others \<Rightarrow>
                 (case find (\<lambda>n. locationParentInputType R h (getLocation n) = Some 1)
                         (inNode # others) of
                    None \<Rightarrow> throw TypeError
                  | Some returnNode \<Rightarrow>
                      (case inThenNext R h returnNode of
                         Some returnBlock \<Rightarrow>
                           (case makeBlockItem R h st returnBlock None of
                              Item t c \<Rightarrow> ret (Item (''return '' @ t) c)
                            | e \<Rightarrow> ret e)
                       | None \<Rightarrow>
                           (case blockNode (blockJoiner st) of
                              None \<Rightarrow> ret (makeTextItem (''return '' @ ''NOTHING''))
                            | Some bn \<Rightarrow>
                                bindC (checkConnection (checks R) h (Some returnNode) (astPrev R h bn))
                                  (\<lambda>ok. if ok
                                         then ret (makeConnectionItem returnNode ''Insert in return'')
                                         else ret (makeTextItem (''return '' @ ''NOTHING'')))))))))"

text \<open>
  \<open>makeIfList_\<close> (lines 1016-1059). \<open>nb\<close> is the property \<open>branch\<close> of the node.
  \<open>ifListSection\<close> is one round of the loop: the header of the branch and the list under
  it.
\<close>

definition ifListSection ::
  "'h renderHost \<Rightarrow> 'h \<Rightarrow> lin \<Rightarrow> node \<Rightarrow> ifBranch \<Rightarrow> elem list outcome option" where
  "ifListSection R h st n br =
     bindC (makeIfBracketItem R h st n br) (\<lambda>header.
       (case bodyNode br of
          Some b \<Rightarrow>
            bindC (walk (collect (astNextBlock R h) b)) (\<lambda>ns.
              bindC (mapC (makeNodeItems R h st) ns) (\<lambda>items.
                ret [header, Ul (concat (map itemsOf items))]))
        | None \<Rightarrow>
            (case blockNode (blockJoiner st) of
               Some bn \<Rightarrow>
                 (case createConnectionNode R h (Some (bodyConnection br)) of
                    None \<Rightarrow> throw TypeError
                  | Some body \<Rightarrow>
                      ret [header, Ul [makeConnectionItem body (''Insert within '' @ bText br)]])
             | None \<Rightarrow> ret [header, Ul [makeTextItem ''NOTHING'']])))"

definition makeIfList ::
  "'h renderHost \<Rightarrow> 'h \<Rightarrow> lin \<Rightarrow> node \<Rightarrow> ifBranch option \<Rightarrow> elem list outcome option" where
  "makeIfList R h st n nb =
     bindC (case nb of Some b \<Rightarrow> ret [b] | None \<Rightarrow> getIfBranches R h n) (\<lambda>branches.
       (let condItems =
              (case nb of
                 Some b \<Rightarrow>
                   (case condNode b of
                      Some c \<Rightarrow> [makeBlockItem R h st c None]
                    | None \<Rightarrow>
                        (case branches of
                           [b0] \<Rightarrow> (case condNode b0 of
                                      Some c \<Rightarrow> [makeBlockItem R h st c None]
                                    | None \<Rightarrow> [])
                         | _ \<Rightarrow> []))
               | None \<Rightarrow>
                   (case branches of
                      [b0] \<Rightarrow> (case condNode b0 of
                                 Some c \<Rightarrow> [makeBlockItem R h st c None]
                               | None \<Rightarrow> [])
                    | _ \<Rightarrow> []))
        in bindC (mapC (ifListSection R h st n) branches) (\<lambda>sections.
             ret (condItems @ concat sections
                  @ (case nb of
                       Some b \<Rightarrow> [Item ''View all branches...'' (GoTo (Some n) None)]
                     | None \<Rightarrow> [])))))"

text \<open>
  \<open>makeBlockList_\<close> (lines 487-582), in three parts that take the recursive call as
  \<open>again\<close>: \<open>generateInnerBody\<close> (lines 504-510), the round of the loop over the branches of
  a conditional (lines 533-548) and the branch for any other block (lines 551-570). The
  change of \<open>innerHTML\<close> at lines 560-561 cuts the label at the last \<open>return \<close>.
\<close>

definition generateInnerBody ::
  "(node \<Rightarrow> elem list outcome option) \<Rightarrow> 'h renderHost \<Rightarrow> 'h \<Rightarrow> node \<Rightarrow> elem list outcome option" where
  "generateInnerBody again R h n =
     bindC (walk (collect (astNextBlock R h) n)) (\<lambda>ns.
       bindC (mapC again ns) (\<lambda>items. ret (concat items)))"

definition blockListSection ::
  "(node \<Rightarrow> elem list outcome option) \<Rightarrow> 'h renderHost \<Rightarrow> 'h \<Rightarrow> lin \<Rightarrow> node \<Rightarrow> ifBranch
     \<Rightarrow> elem list outcome option" where
  "blockListSection again R h st n br =
     bindC (makeIfBracketItem R h st n br) (\<lambda>headerItem.
       (case bodyNode br of
          Some b \<Rightarrow> bindC (generateInnerBody again R h b) (\<lambda>inner. ret [headerItem, Ul inner])
        | None \<Rightarrow>
            (case blockNode (blockJoiner st) of
               Some bn \<Rightarrow>
                 (let bodyN = createConnectionNode R h (Some (bodyConnection br))
                  in bindC (checkConnection (checks R) h bodyN (Some bn)) (\<lambda>ok.
                       if ok
                       then (case bodyN of
                               Some c \<Rightarrow>
                                 ret [headerItem,
                                      Ul [makeConnectionItem c (''Insert within '' @ bText br)]]
                             | None \<Rightarrow> throw TypeError)
                       else ret [headerItem, Ul []]))
             | None \<Rightarrow> ret [headerItem, Ul []])))"

definition cutAtLast :: "string \<Rightarrow> string \<Rightarrow> string" where
  "cutAtLast pat s =
     (case filter (\<lambda>i. take (length pat) (drop i s) = pat) (rev [0..<Suc (length s)]) of
        [] \<Rightarrow> s
      | i # others \<Rightarrow> take i s)"

definition blockListPlain ::
  "(node \<Rightarrow> elem list outcome option) \<Rightarrow> 'h renderHost \<Rightarrow> 'h \<Rightarrow> lin \<Rightarrow> node \<Rightarrow> elem
     \<Rightarrow> elem list outcome option" where
  "blockListPlain again R h st n mainElem =
     (case astInBlock R h n of
        Some firstNested \<Rightarrow>
          bindC (generateInnerBody again R h firstNested) (\<lambda>inner.
            if blockTypeOf R h (getLocation n) = ''procedures_defreturn''
            then bindC (makeReturnItem R h st n) (\<lambda>r.
                   ret [(case mainElem of Item t c \<Rightarrow> Item (cutAtLast ''return '' t) c | e \<Rightarrow> e),
                        Ul (inner @ [r])])
            else ret [mainElem, Ul inner])
      | None \<Rightarrow>
          if blockNode (blockJoiner st) \<noteq> None \<and> astIn R h n \<noteq> None
          then bindC (makeInnerInputList R h st n) (\<lambda>inputs. ret [mainElem, Ul inputs])
          else ret [mainElem])"

text \<open>
  The recursion of \<open>makeBlockList_\<close> runs as deep as the blocks are nested; the first
  argument bounds the depth, and the result is \<open>None\<close> when the bound is reached.
\<close>

fun makeBlockList ::
  "nat \<Rightarrow> 'h renderHost \<Rightarrow> 'h \<Rightarrow> lin \<Rightarrow> node \<Rightarrow> location \<Rightarrow> elem list outcome option" where
  "makeBlockList 0 R h st n rootBlock = None"
| "makeBlockList (Suc k) R h st n rootBlock =
     (let block = getLocation n;
          endLabel = (case getNestingBlockName R h block of
                        None \<Rightarrow> []
                      | Some nestedName \<Rightarrow> [makeTextItem (''end '' @ nestedName)])
      in if getType n \<noteq> BLOCK
            \<or> (hasOutputConnection R h block \<and> getParent R h block \<noteq> None)
            \<or> getRootBlock R h block \<noteq> rootBlock
         then ret endLabel
         else
           bindC (makeNodeItems R h st n) (\<lambda>basicNodeItems.
             bindC
               (if blockTypeOf R h block = ''controls_if''
                then bindC (getIfBranches R h n) (\<lambda>branches.
                       bindC (mapC (blockListSection (\<lambda>m. makeBlockList k R h st m rootBlock)
                                      R h st n) branches)
                         (\<lambda>sections. ret (concat sections)))
                else blockListPlain (\<lambda>m. makeBlockList k R h st m rootBlock) R h st n
                       (mainItem basicNodeItems))
               (\<lambda>middle.
                  ret ((case firstItem basicNodeItems of None \<Rightarrow> [] | Some f \<Rightarrow> [f])
                       @ middle @ endLabel
                       @ (case finalItem basicNodeItems of None \<Rightarrow> [] | Some f \<Rightarrow> [f])))))"




section \<open>A workspace with a conditional\<close>

text \<open>
  A second host. Block 6 is a conditional with the arms \<open>if\<close>, \<open>else if\<close> and \<open>else\<close>; its
  inputs are the connections 61 (first condition, holding the value block 8), 62 (first body,
  holding the statement block 7), 63 (second condition, empty), 64 (second body, empty) and
  65 (the body of \<open>else\<close>, empty). Block 9 is a statement block in a stack of its own.
  Connection \<open>10 b\<close> is the predecessor connection of block \<open>b\<close>, \<open>10 b + 2\<close> (for block 6,
  \<open>66\<close>) its successor connection, 80 the output connection of block 8.
\<close>

definition ifNext :: "unit \<Rightarrow> node \<Rightarrow> node option" where
  "ifNext h = map_of
     [(ASTNode STACK (Block 6), ASTNode STACK (Block 9)),
      (ASTNode INPUT (Connection 61), ASTNode INPUT (Connection 62)),
      (ASTNode INPUT (Connection 62), ASTNode INPUT (Connection 63)),
      (ASTNode INPUT (Connection 63), ASTNode INPUT (Connection 64)),
      (ASTNode INPUT (Connection 64), ASTNode INPUT (Connection 65)),
      (ASTNode OUTPUT (Connection 80), ASTNode BLOCK (Block 8)),
      (ASTNode PREVIOUS (Connection 60), ASTNode BLOCK (Block 6)),
      (ASTNode PREVIOUS (Connection 70), ASTNode BLOCK (Block 7)),
      (ASTNode PREVIOUS (Connection 90), ASTNode BLOCK (Block 9)),
      (ASTNode BLOCK (Block 6), ASTNode NEXT (Connection 66)),
      (ASTNode BLOCK (Block 7), ASTNode NEXT (Connection 72)),
      (ASTNode BLOCK (Block 9), ASTNode NEXT (Connection 92))]"

definition ifPrev :: "unit \<Rightarrow> node \<Rightarrow> node option" where
  "ifPrev h = map_of
     [(ASTNode BLOCK (Block 6), ASTNode PREVIOUS (Connection 60)),
      (ASTNode BLOCK (Block 7), ASTNode PREVIOUS (Connection 70)),
      (ASTNode BLOCK (Block 8), ASTNode OUTPUT (Connection 80)),
      (ASTNode BLOCK (Block 9), ASTNode PREVIOUS (Connection 90)),
      (ASTNode PREVIOUS (Connection 70), ASTNode INPUT (Connection 62)),
      (ASTNode OUTPUT (Connection 80), ASTNode INPUT (Connection 61)),
      (ASTNode NEXT (Connection 66), ASTNode BLOCK (Block 6)),
      (ASTNode NEXT (Connection 72), ASTNode BLOCK (Block 7)),
      (ASTNode NEXT (Connection 92), ASTNode BLOCK (Block 9))]"

definition ifIn :: "unit \<Rightarrow> node \<Rightarrow> node option" where
  "ifIn h = map_of
     [(ASTNode WORKSPACE Workspace, ASTNode STACK (Block 6)),
      (ASTNode STACK (Block 6), ASTNode PREVIOUS (Connection 60)),
      (ASTNode STACK (Block 9), ASTNode PREVIOUS (Connection 90)),
      (ASTNode BLOCK (Block 6), ASTNode INPUT (Connection 61)),
      (ASTNode INPUT (Connection 61), ASTNode OUTPUT (Connection 80)),
      (ASTNode INPUT (Connection 62), ASTNode PREVIOUS (Connection 70))]"

definition ifNextBlock :: "unit \<Rightarrow> node \<Rightarrow> node option" where
  "ifNextBlock h = map_of
     [(ASTNode PREVIOUS (Connection 60), ASTNode BLOCK (Block 6)),
      (ASTNode PREVIOUS (Connection 90), ASTNode BLOCK (Block 9))]"

definition ifInBlock :: "unit \<Rightarrow> node \<Rightarrow> node option" where
  "ifInBlock h = map_of [(ASTNode BLOCK (Block 6), ASTNode BLOCK (Block 7))]"

definition ifAscend :: "unit \<Rightarrow> node \<Rightarrow> node option" where
  "ifAscend h = map_of
     [(ASTNode INPUT (Connection 61), ASTNode BLOCK (Block 6)),
      (ASTNode INPUT (Connection 62), ASTNode BLOCK (Block 6)),
      (ASTNode INPUT (Connection 63), ASTNode BLOCK (Block 6)),
      (ASTNode INPUT (Connection 64), ASTNode BLOCK (Block 6)),
      (ASTNode INPUT (Connection 65), ASTNode BLOCK (Block 6)),
      (ASTNode PREVIOUS (Connection 60), ASTNode BLOCK (Block 6)),
      (ASTNode NEXT (Connection 66), ASTNode BLOCK (Block 6)),
      (ASTNode BLOCK (Block 6), ASTNode STACK (Block 6)),
      (ASTNode PREVIOUS (Connection 70), ASTNode BLOCK (Block 7)),
      (ASTNode NEXT (Connection 72), ASTNode BLOCK (Block 7)),
      (ASTNode BLOCK (Block 7), ASTNode INPUT (Connection 62)),
      (ASTNode OUTPUT (Connection 80), ASTNode BLOCK (Block 8)),
      (ASTNode BLOCK (Block 8), ASTNode INPUT (Connection 61)),
      (ASTNode PREVIOUS (Connection 90), ASTNode BLOCK (Block 9)),
      (ASTNode NEXT (Connection 92), ASTNode BLOCK (Block 9)),
      (ASTNode BLOCK (Block 9), ASTNode STACK (Block 9)),
      (ASTNode STACK (Block 6), ASTNode WORKSPACE Workspace),
      (ASTNode STACK (Block 9), ASTNode WORKSPACE Workspace)]"

text \<open>
  The kinds of the connections: predecessor, statement (successor or body input), value
  input, output. The host's test lets a statement connection meet a predecessor connection
  and a value input meet an output connection, and throws on everything else, entities
  that are no connection included.
\<close>

datatype connKind = Predecessor | Statement | ValueInput | Output

definition ifConnKind :: "nat \<Rightarrow> connKind option" where
  "ifConnKind = map_of
     [(60, Predecessor), (70, Predecessor), (90, Predecessor),
      (62, Statement), (64, Statement), (65, Statement), (66, Statement), (72, Statement),
      (92, Statement), (61, ValueInput), (63, ValueInput), (80, Output)]"

definition ifCompatible :: "connKind option \<Rightarrow> connKind option \<Rightarrow> bool" where
  "ifCompatible a b =
     ((a, b) \<in> set [(Some Statement, Some Predecessor), (Some Predecessor, Some Statement),
                   (Some ValueInput, Some Output), (Some Output, Some ValueInput)])"

definition ifCheckHost :: "unit checkHost" where
  "ifCheckHost =
     \<lparr>checkConnectionThrows =
        (\<lambda>h a b. case a of
                    Connection c \<Rightarrow>
                      (case b of
                         Connection d \<Rightarrow> \<not> ifCompatible (ifConnKind c) (ifConnKind d)
                       | _ \<Rightarrow> True)
                  | _ \<Rightarrow> True),
      nodeAscend = ifAscend,
      connectionSourceBlock = (\<lambda>h c. Some (Block (c div 10))),
      fieldSourceBlock = (\<lambda>h f. None)\<rparr>"

definition ifConnectionNode :: "location \<Rightarrow> node option" where
  "ifConnectionNode l =
     (case l of
        Connection c \<Rightarrow>
          (if c \<in> set [61, 62, 63, 64, 65] then Some (ASTNode INPUT l)
           else case ifConnKind c of
                  Some Predecessor \<Rightarrow> Some (ASTNode PREVIOUS l)
                | Some Statement \<Rightarrow> Some (ASTNode NEXT l)
                | Some Output \<Rightarrow> Some (ASTNode OUTPUT l)
                | _ \<Rightarrow> None)
      | _ \<Rightarrow> None)"

definition ifHost :: "unit renderHost" where
  "ifHost =
     \<lparr>checks = ifCheckHost,
      astNext = ifNext, astPrev = ifPrev, astIn = ifIn,
      astNextBlock = ifNextBlock, astInBlock = ifInBlock,
      connectionNodeOf = (\<lambda>h. ifConnectionNode),
      blockTypeOf = (\<lambda>h l. if l = Block 6 then ''controls_if''
                             else if l = Block 8 then ''logic_boolean''
                             else if l \<in> set [Block 7, Block 9] then ''text_print'' else ''''),
      makeAriaLabel = (\<lambda>h l. if l = Block 6 then ''if''
                               else if l = Block 8 then ''true'' else ''print''),
      hasOutputConnection = (\<lambda>h l. l = Block 8),
      getParent = (\<lambda>h l. if l \<in> set [Block 7, Block 8] then Some (Block 6) else None),
      getRootBlock = (\<lambda>h l. if l = Block 9 then Block 9 else Block 6),
      whileUntilMode = (\<lambda>h l. ''''),
      nodeParentInputType = (\<lambda>h n. if n \<in> set [ASTNode INPUT (Connection 61),
                                                  ASTNode INPUT (Connection 63)] then Some 1
                                     else if getType n = INPUT then Some 3 else None),
      locationParentInputType = (\<lambda>h l. if l \<in> set [Connection 61, Connection 63] then Some 1
                                         else if l \<in> set [Connection 62, Connection 64,
                                                           Connection 65] then Some 3
                                         else None)\<rparr>"

text \<open>
  Two states on this workspace with block 9 picked up for a move: the conditional
  selected, and nothing selected.
\<close>

definition ifMoving :: lin where
  "ifMoving = freshLin\<lparr>blockJoiner := \<lparr>blockNode = Some (ASTNode BLOCK (Block 9)),
                                        connectionNode = None\<rparr>\<rparr>"

definition ifSelectedMoving :: lin where
  "ifSelectedMoving = ifMoving\<lparr>selected := Some (ASTNode BLOCK (Block 6))\<rparr>"

definition elseArm :: ifBranch where
  "elseArm =
     \<lparr>bKey = 2, bType = 3, bText = ''else'', condIndex = None, condConnection = None,
      condNode = None, bodyIndex = 4, bodyConnection = Connection 65, bodyNode = None\<rparr>"

definition elseIfArm :: ifBranch where
  "elseIfArm =
     \<lparr>bKey = 1, bType = 2, bText = ''else if'', condIndex = Some 2,
      condConnection = Some (Connection 63), condNode = None, bodyIndex = 3,
      bodyConnection = Connection 64, bodyNode = None\<rparr>"

definition ifArm :: ifBranch where
  "ifArm =
     \<lparr>bKey = 0, bType = 1, bText = ''if'', condIndex = Some 0,
      condConnection = Some (Connection 61), condNode = Some (ASTNode BLOCK (Block 8)),
      bodyIndex = 1, bodyConnection = Connection 62,
      bodyNode = Some (ASTNode BLOCK (Block 7))\<rparr>"


section \<open>Well-formed block trees\<close>

text \<open>
  The items of a list of elements that lead to a block, read in the order of the document:
  the node and the branch each leads to; and, of those, the blocks that are not inline. A
  block is inline when it has an output connection and a parent (the second condition of the
  test of \<open>makeBlockList_\<close>).
\<close>

fun targetsOf :: "elem \<Rightarrow> (node \<times> ifBranch option) list" where
  "targetsOf (Text s) = []"
| "targetsOf (Item t NoClick) = []"
| "targetsOf (Item t (PushNode n)) = []"
| "targetsOf (Item t (GoTo None b)) = []"
| "targetsOf (Item t (GoTo (Some n) b)) = [(n, b)]"
| "targetsOf (Ul es) = concat (map targetsOf es)"
| "targetsOf (Li es) = concat (map targetsOf es)"

definition inline :: "'h renderHost \<Rightarrow> 'h \<Rightarrow> location \<Rightarrow> bool" where
  "inline R h l = (hasOutputConnection R h l \<and> getParent R h l \<noteq> None)"

definition listed :: "'h renderHost \<Rightarrow> 'h \<Rightarrow> elem list \<Rightarrow> location list" where
  "listed R h es =
     filter (\<lambda>l. \<not> inline R h l) (map (\<lambda>t. getLocation (fst t)) (concat (map targetsOf es)))"




















section \<open>Properties of the stack markers\<close>

lemma lex_append_same_length:
  "length a = length b \<Longrightarrow> a < b \<Longrightarrow> a @ x < b @ (y::string)"
  unfolding list_less_def by (rule lexord_sufI) auto

lemma lex_append_left: "u < v \<Longrightarrow> x @ u < x @ (v::string)"
  unfolding list_less_def by (rule lexord_append_leftI)

lemma succ_upper_char:
  assumes "CHR ''A'' \<le> c" "c \<le> CHR ''Z''" "(of_char c :: nat) \<noteq> of_char CHR ''Z''"
  shows "c < char_of ((of_char c :: nat) + 1) \<and> CHR ''A'' \<le> char_of ((of_char c :: nat) + 1)
     \<and> char_of ((of_char c :: nat) + 1) \<le> CHR ''Z''"
proof -
  let ?n = "of_char c :: nat"
  from assms have b: "65 \<le> ?n" "?n < 90"
    by (simp_all add: less_eq_char_def)
  then have "of_char (char_of (?n + 1) :: char) = ?n + 1"
    by (simp add: of_char_of)
  then show ?thesis using b
    by (simp add: less_eq_char_def less_char_def)
qed

lemma next_upper_shortlex:
  "upperMarker m \<Longrightarrow> upperMarker (nextStackMarker m) \<and> shortlexLess m (nextStackMarker m)"
proof (induction m rule: nextStackMarker.induct)
  case (1 marker)
  from "1.prems" have ne: "marker \<noteq> []" by (simp add: upperMarker_def)
  then have split: "marker = butlast marker @ [last marker]" by simp
  from "1.prems" have allu: "list_all (\<lambda>c. CHR ''A'' \<le> c \<and> c \<le> CHR ''Z'') (butlast marker)"
    and lastu: "CHR ''A'' \<le> last marker \<and> last marker \<le> CHR ''Z''"
    using ne by (auto simp: upperMarker_def list_all_iff dest: in_set_butlastD)
  show ?case
  proof (cases "(of_char (last marker) :: nat) = of_char CHR ''Z''")
    case z: True
    show ?thesis
    proof (cases "butlast marker = []")
      case True
      with z ne split have "nextStackMarker marker = ''AA''"
        by (simp add: nextStackMarker.simps [of marker])
      moreover have "length marker = 1"
        using True split by (metis append_Nil length_Cons list.size(3) One_nat_def)
      ultimately show ?thesis by (simp add: upperMarker_def shortlexLess_def)
    next
      case False
      then have up: "upperMarker (butlast marker)" using allu by (simp add: upperMarker_def)
      from "1.IH" [OF ne refl z False up]
      have ih: "upperMarker (nextStackMarker (butlast marker))"
        "shortlexLess (butlast marker) (nextStackMarker (butlast marker))" by simp_all
      have eq: "nextStackMarker marker = nextStackMarker (butlast marker) @ ''A''"
        using z ne False by (simp add: nextStackMarker.simps [of marker])
      have "shortlexLess (butlast marker @ [last marker]) (nextStackMarker (butlast marker) @ ''A'')"
        using ih(2) by (auto simp: shortlexLess_def intro: lex_append_same_length)
      with split eq ih(1) show ?thesis by (simp add: upperMarker_def)
    qed
  next
    case False
    then have eq: "nextStackMarker marker
        = butlast marker @ [char_of ((of_char (last marker) :: nat) + 1)]"
      using ne by (simp add: nextStackMarker.simps [of marker])
    from succ_upper_char [OF _ _ False] lastu
    have s: "last marker < char_of ((of_char (last marker) :: nat) + 1)"
      "CHR ''A'' \<le> char_of ((of_char (last marker) :: nat) + 1)"
      "char_of ((of_char (last marker) :: nat) + 1) \<le> CHR ''Z''" by simp_all
    have "butlast marker @ [last marker]
        < butlast marker @ [char_of ((of_char (last marker) :: nat) + 1)]"
      using s(1) by (intro lex_append_left) simp
    with split have "marker < nextStackMarker marker" using eq by simp
    moreover have "length (nextStackMarker marker) = length marker" using eq ne by simp
    ultimately show ?thesis using eq allu s by (simp add: upperMarker_def shortlexLess_def)
  qed
qed

lemma shortlexLess_trans: "shortlexLess a b \<Longrightarrow> shortlexLess b c \<Longrightarrow> shortlexLess a c"
  by (auto simp: shortlexLess_def)

lemma assignMarkers_above:
  "upperMarker m \<Longrightarrow> x \<in> set (assignMarkers (nextStackMarker m) stacks) \<Longrightarrow> shortlexLess m x"
proof (induction stacks arbitrary: m)
  case Nil
  then show ?case by simp
next
  case (Cons s stacks)
  from next_upper_shortlex [OF Cons.prems(1)]
  have up: "upperMarker (nextStackMarker m)" and less: "shortlexLess m (nextStackMarker m)"
    by simp_all
  from Cons.prems(2) consider "x = nextStackMarker m"
    | "x \<in> set (assignMarkers (nextStackMarker (nextStackMarker m)) stacks)" by auto
  then show ?case
  proof cases
    case 1
    with less show ?thesis by simp
  next
    case 2
    from Cons.IH [OF up 2] less show ?thesis by (blast intro: shortlexLess_trans)
  qed
qed

lemma assignMarkers_sorted:
  "upperMarker m \<Longrightarrow> sorted_wrt shortlexLess (assignMarkers m stacks)"
proof (induction stacks arbitrary: m)
  case Nil
  then show ?case by simp
next
  case (Cons s stacks)
  from next_upper_shortlex [OF Cons.prems] have "upperMarker (nextStackMarker m)" by simp
  with Cons.IH have "sorted_wrt shortlexLess (assignMarkers (nextStackMarker m) stacks)" .
  with Cons.prems show ?case by (auto intro: assignMarkers_above)
qed

lemma assignMarkers_length: "length (assignMarkers m stacks) = length stacks"
  by (induction stacks arbitrary: m) simp_all

text \<open>
  C7, as the code has it. The markers handed to the stacks start at \<open>A\<close>; the successor of
  \<open>Z\<close> is \<open>AA\<close> and the successor of \<open>AZ\<close> is \<open>BA\<close>; and the markers of any sequence of stacks
  are strictly increasing in the order that compares lengths first and strings of the same
  length in dictionary order.
\<close>

theorem stack_markers_increasing:
  "nextStackMarker ''Z'' = ''AA'' \<and> nextStackMarker ''AZ'' = ''BA''
   \<and> length (stackMarkers stacks) = length stacks
   \<and> (stacks \<noteq> [] \<longrightarrow> hd (stackMarkers stacks) = ''A'')
   \<and> (\<forall>i j. i < j \<and> j < length stacks
         \<longrightarrow> shortlexLess (stackMarkers stacks ! i) (stackMarkers stacks ! j))"
proof -
  have a: "nextStackMarker ''Z'' = ''AA''" by code_simp
  have b: "nextStackMarker ''AZ'' = ''BA''" by code_simp
  have up: "upperMarker ''A''" by (simp add: upperMarker_def)
  have c: "sorted_wrt shortlexLess (stackMarkers stacks)"
    unfolding stackMarkers_def by (rule assignMarkers_sorted [OF up])
  have d: "stacks \<noteq> [] \<longrightarrow> hd (stackMarkers stacks) = ''A''"
    by (cases stacks) (simp_all add: stackMarkers_def)
  have len: "length (stackMarkers stacks) = length stacks"
    by (simp add: stackMarkers_def assignMarkers_length)
  from c len have "\<forall>i j. i < j \<and> j < length stacks
         \<longrightarrow> shortlexLess (stackMarkers stacks ! i) (stackMarkers stacks ! j)"
    by (simp add: sorted_wrt_iff_nth_less)
  with a b d len show ?thesis by blast
qed

theorem stack_markers_increasing_witness:
  "stackMarkers [1, 2, 3 :: nat] = [''A'', ''B'', ''C'']
   \<and> shortlexLess (stackMarkers [1, 2, 3 :: nat] ! 0) (stackMarkers [1, 2, 3 :: nat] ! 2)
   \<and> hd (stackMarkers [1, 2, 3 :: nat]) = ''A''"
proof -
  have "stackMarkers [1, 2, 3 :: nat] = [''A'', ''B'', ''C'']" by code_simp
  moreover have "(0::nat) < 2 \<and> 2 < length [1, 2, 3 :: nat]" by simp
  ultimately show ?thesis
    using stack_markers_increasing [of "[1, 2, 3 :: nat]"] by blast
qed

text \<open>
  C7, as the claim has it, fails where the markers overflow: after \<open>Z\<close> comes \<open>AA\<close>, which
  lies before \<open>Z\<close> in dictionary order. With 27 stacks the last two markers are \<open>Z\<close> and
  \<open>AA\<close>.
\<close>

theorem stack_markers_not_lexicographic:
  "stackMarkers (replicate 27 ()) ! 25 = ''Z''
   \<and> stackMarkers (replicate 27 ()) ! 26 = ''AA''
   \<and> nextStackMarker ''Z'' = ''AA''
   \<and> \<not> lexLess ''Z'' (nextStackMarker ''Z'')
   \<and> lexLess (nextStackMarker ''Z'') ''Z''"
  by code_simp

section \<open>Properties of the BlockJoiner\<close>

lemma detachOld_effects:
  "\<exists>pre. effects (detachOld ops p w) = effects w @ pre \<and> (\<forall>a c. Connect a c \<notin> set pre)"
  by (auto simp: detachOld_def Let_def split: option.splits prod.splits)

lemma connectProvided_effects:
  "\<exists>post. effects (connectProvided ops cn pb w) = effects w @ [Connect (getLocation cn) pb] @ post
      \<and> (\<forall>a c. Connect a c \<notin> set post)"
  by (auto simp: connectProvided_def Let_def split: option.splits prod.splits)

lemma attemptConnection_main:
  assumes "blockNode j = Some provided" "connectionNode j = Some cn"
    "backStep ops (getType cn) = Some bk" "bk (hostState w) provided = Some b"
  shows "attemptConnection ops w j =
     (Returned (), connectProvided ops cn (getLocation b) (detachOld ops provided w),
      j\<lparr>connectionNode := None, blockNode := None\<rparr>)"
  using assms by (simp add: attemptConnection_def Let_def)

lemma attemptConnection_empty_slot:
  "blockNode j = None \<or> connectionNode j = None \<Longrightarrow> attemptConnection ops w j = (Returned (), w, j)"
  by (auto simp: attemptConnection_def split: option.splits)

text \<open>
  Where the service step reaches its end, both slots are empty, whatever the connect call
  did.
\<close>

lemma attemptConnection_main_clears:
  assumes "blockNode j = Some provided" "connectionNode j = Some cn"
    "backStep ops (getType cn) = Some bk" "bk (hostState w) provided = Some b"
  shows "snd (snd (attemptConnection ops w j)) = \<lparr>blockNode = None, connectionNode = None\<rparr>"
  by (simp add: attemptConnection_main [OF assms])

text \<open>
  C1, as the code has it. The service step of the joiner walks no ancestor chain: with both
  slots occupied, a connection node of type \<open>NEXT\<close>, \<open>INPUT\<close>, \<open>PREVIOUS\<close> or \<open>OUTPUT\<close> and a
  provided node that has the neighbour \<open>back\<close> asks for, it calls the host's connect exactly
  once, on the target connection and that neighbour. The walk is in \<open>checkConnection\<close>,
  which decides whether an insert control is offered: it goes up from the target connection
  through every ancestor of type \<open>BLOCK\<close> and answers false when the source block of the
  candidate connection is among them.
\<close>

theorem cycle_check_outside_service:
  "(blockNode j = Some provided \<and> connectionNode j = Some cn
      \<and> backStep ops (getType cn) = Some bk \<and> bk (hostState w) provided = Some b
    \<longrightarrow> (\<exists>pre post.
           effects (fst (snd (attemptConnection ops w j)))
             = effects w @ pre @ [Connect (getLocation cn) (getLocation b)] @ post
           \<and> (\<forall>a c. Connect a c \<notin> set (pre @ post))))
   \<and> (parentBlocks cops g conn = Some pbs
        \<and> getSourceBlock cops g (getLocation bc) = Returned sb
        \<and> sb \<in> set (map Some pbs)
    \<longrightarrow> checkConnection cops g (Some conn) (Some bc) = Some (Returned False))"
proof (intro conjI impI)
  assume a: "blockNode j = Some provided \<and> connectionNode j = Some cn
      \<and> backStep ops (getType cn) = Some bk \<and> bk (hostState w) provided = Some b"
  then have run: "attemptConnection ops w j =
     (Returned (), connectProvided ops cn (getLocation b) (detachOld ops provided w),
      j\<lparr>connectionNode := None, blockNode := None\<rparr>)"
    using attemptConnection_main [of j provided cn ops bk w b] by simp
  from detachOld_effects [of ops provided w] obtain pre where
    pre: "effects (detachOld ops provided w) = effects w @ pre" "\<forall>a c. Connect a c \<notin> set pre"
    by blast
  from connectProvided_effects [of ops cn "getLocation b" "detachOld ops provided w"]
  obtain post where
    post: "effects (connectProvided ops cn (getLocation b) (detachOld ops provided w))
      = effects (detachOld ops provided w) @ [Connect (getLocation cn) (getLocation b)] @ post"
      "\<forall>a c. Connect a c \<notin> set post"
    by blast
  have "effects (fst (snd (attemptConnection ops w j)))
      = effects w @ pre @ [Connect (getLocation cn) (getLocation b)] @ post"
    using run pre(1) post(1) by simp
  moreover have "\<forall>a c. Connect a c \<notin> set (pre @ post)" using pre(2) post(2) by simp
  ultimately show "\<exists>pre post.
           effects (fst (snd (attemptConnection ops w j)))
             = effects w @ pre @ [Connect (getLocation cn) (getLocation b)] @ post
           \<and> (\<forall>a c. Connect a c \<notin> set (pre @ post))" by blast
next
  assume "parentBlocks cops g conn = Some pbs
        \<and> getSourceBlock cops g (getLocation bc) = Returned sb
        \<and> sb \<in> set (map Some pbs)"
  then show "checkConnection cops g (Some conn) (Some bc) = Some (Returned False)"
    by (simp add: checkConnection_def)
qed

lemma exAscend_chain_32:
  "collect (exAscend ()) (ASTNode NEXT (Connection 32)) =
     Some [ASTNode NEXT (Connection 32), ASTNode BLOCK (Block 3), ASTNode INPUT (Connection 21),
           ASTNode BLOCK (Block 2), ASTNode INPUT (Connection 11), ASTNode BLOCK (Block 1),
           ASTNode STACK (Block 1), ASTNode WORKSPACE Workspace]"
  by (simp add: collect.simps exAscend_def)

lemma cyclicMove_run:
  "attemptConnection exJoinerHost exWorld cyclicMove =
     (Returned (),
      \<lparr>hostState = (), effects = [Connect (Connection 32) (Connection 10), Warn, Reload]\<rparr>,
      emptyJoiner)"
  by (simp add: attemptConnection_def cyclicMove_def emptyJoiner_def exWorld_def exJoinerHost_def
      backStep_def exPrev_def detachOld_def connectProvided_def)

theorem cycle_check_outside_service_witness:
  "(\<exists>pre post.
      effects (fst (snd (attemptConnection exJoinerHost exWorld cyclicMove)))
        = effects exWorld @ pre @ [Connect (Connection 32) (Connection 10)] @ post
      \<and> (\<forall>a c. Connect a c \<notin> set (pre @ post)))
   \<and> checkConnection exCheckHost () (Some (ASTNode NEXT (Connection 32)))
        (Some (ASTNode PREVIOUS (Connection 10))) = Some (Returned False)"
proof -
  have 1: "blockNode cyclicMove = Some (ASTNode BLOCK (Block 1))
      \<and> connectionNode cyclicMove = Some (ASTNode NEXT (Connection 32))
      \<and> backStep exJoinerHost (getType (ASTNode NEXT (Connection 32))) = Some exPrev
      \<and> exPrev (hostState exWorld) (ASTNode BLOCK (Block 1))
          = Some (ASTNode PREVIOUS (Connection 10))"
    by (simp add: cyclicMove_def backStep_def exJoinerHost_def exPrev_def)
  have 2: "parentBlocks exCheckHost () (ASTNode NEXT (Connection 32))
        = Some [Block 3, Block 2, Block 1]
      \<and> getSourceBlock exCheckHost () (getLocation (ASTNode PREVIOUS (Connection 10)))
        = Returned (Some (Block 1))
      \<and> Some (Block 1) \<in> set (map Some [Block 3, Block 2, Block 1])"
    by (simp add: parentBlocks_def exAscend_chain_32 exCheckHost_def getSourceBlock_def)
  from 1 2 cycle_check_outside_service
    [of cyclicMove "ASTNode BLOCK (Block 1)" "ASTNode NEXT (Connection 32)" exJoinerHost exPrev
        exWorld "ASTNode PREVIOUS (Connection 10)" exCheckHost "()" "ASTNode NEXT (Connection 32)"
        "[Block 3, Block 2, Block 1]" "ASTNode PREVIOUS (Connection 10)" "Some (Block 1)"]
  show ?thesis by simp
qed

text \<open>
  C1, as the claim has it, fails. Block 1 is picked up and the successor connection of block
  3, which lies two levels inside block 1, is the target: block 1 is among the blocks above
  the target, the connection check answers false, and the service step calls the host's
  connect all the same (here the host throws, and the page is reloaded).
\<close>

theorem service_connects_onto_descendant:
  "blockNode cyclicMove = Some (ASTNode BLOCK (Block 1))
   \<and> connectionNode cyclicMove = Some (ASTNode NEXT (Connection 32))
   \<and> parentBlocks exCheckHost () (ASTNode NEXT (Connection 32)) = Some [Block 3, Block 2, Block 1]
   \<and> checkConnection exCheckHost () (Some (ASTNode NEXT (Connection 32)))
        (exPrev () (ASTNode BLOCK (Block 1))) = Some (Returned False)
   \<and> attemptConnection exJoinerHost exWorld cyclicMove =
       (Returned (),
        \<lparr>hostState = (), effects = [Connect (Connection 32) (Connection 10), Warn, Reload]\<rparr>,
        emptyJoiner)"
  by (simp add: cyclicMove_run parentBlocks_def exAscend_chain_32 checkConnection_def
      exCheckHost_def getSourceBlock_def exPrev_def)
    (simp add: cyclicMove_def)

text \<open>
  C2. The service step does not always end with both slots empty. With the function
  definition, block 4, in the block slot and the body connection of the conditional in the
  connection slot, \<open>back(provided)\<close> is \<open>null\<close>: the \<open>TypeError\<close> of line 173 leaves the call
  before the slots are cleared, and both stay occupied.
\<close>

theorem service_leaves_slots_occupied:
  "attemptConnection exJoinerHost exWorld hatMove = (Threw TypeError, exWorld, hatMove)
   \<and> blockNode (snd (snd (attemptConnection exJoinerHost exWorld hatMove)))
       = Some (ASTNode BLOCK (Block 4))
   \<and> connectionNode (snd (snd (attemptConnection exJoinerHost exWorld hatMove)))
       = Some (ASTNode INPUT (Connection 52))"
  by (simp add: attemptConnection_def hatMove_def exJoinerHost_def backStep_def exPrev_def)

text \<open>
  How \<open>push\<close> classifies. An item that points at a block goes into the block slot, an item
  that points at a connection into the connection slot, each overwriting what its slot held
  and leaving the other slot alone; the service step then runs on that state. An item that
  points at anything else makes \<open>push\<close> return false with the slots and the host as they
  were.
\<close>

lemma push_classifies:
  "((\<exists>b. getLocation item = Block b) \<longrightarrow>
      snd (push ops item w j) = snd (attemptConnection ops w (j\<lparr>blockNode := Some item\<rparr>))
      \<and> fst (push ops item w j) =
          (case fst (attemptConnection ops w (j\<lparr>blockNode := Some item\<rparr>)) of
             Returned u \<Rightarrow> Returned True | Threw e \<Rightarrow> Threw e)
      \<and> (connectionNode j = None \<longrightarrow>
           push ops item w j = (Returned True, w, j\<lparr>blockNode := Some item\<rparr>)))
   \<and> ((\<exists>c. getLocation item = Connection c) \<longrightarrow>
      snd (push ops item w j) = snd (attemptConnection ops w (j\<lparr>connectionNode := Some item\<rparr>))
      \<and> fst (push ops item w j) =
          (case fst (attemptConnection ops w (j\<lparr>connectionNode := Some item\<rparr>)) of
             Returned u \<Rightarrow> Returned True | Threw e \<Rightarrow> Threw e)
      \<and> (blockNode j = None \<longrightarrow>
           push ops item w j = (Returned True, w, j\<lparr>connectionNode := Some item\<rparr>)))
   \<and> ((\<forall>b. getLocation item \<noteq> Block b) \<and> (\<forall>c. getLocation item \<noteq> Connection c) \<longrightarrow>
      fst (push ops item w j) = Returned False
      \<and> snd (snd (push ops item w j)) = j
      \<and> hostState (fst (snd (push ops item w j))) = hostState w)"
proof (intro conjI impI)
  assume "\<exists>b. getLocation item = Block b"
  then show "snd (push ops item w j) = snd (attemptConnection ops w (j\<lparr>blockNode := Some item\<rparr>))"
    and "fst (push ops item w j) =
          (case fst (attemptConnection ops w (j\<lparr>blockNode := Some item\<rparr>)) of
             Returned u \<Rightarrow> Returned True | Threw e \<Rightarrow> Threw e)"
    by (auto simp: push_def split: prod.splits outcome.splits)
next
  assume "\<exists>b. getLocation item = Block b" and "connectionNode j = None"
  then show "push ops item w j = (Returned True, w, j\<lparr>blockNode := Some item\<rparr>)"
    by (auto simp: push_def attemptConnection_empty_slot)
next
  assume "\<exists>c. getLocation item = Connection c"
  then show "snd (push ops item w j) = snd (attemptConnection ops w (j\<lparr>connectionNode := Some item\<rparr>))"
    and "fst (push ops item w j) =
          (case fst (attemptConnection ops w (j\<lparr>connectionNode := Some item\<rparr>)) of
             Returned u \<Rightarrow> Returned True | Threw e \<Rightarrow> Threw e)"
    by (auto simp: push_def split: prod.splits outcome.splits)
next
  assume "\<exists>c. getLocation item = Connection c" and "blockNode j = None"
  then show "push ops item w j = (Returned True, w, j\<lparr>connectionNode := Some item\<rparr>)"
    by (auto simp: push_def attemptConnection_empty_slot)
next
  assume "(\<forall>b. getLocation item \<noteq> Block b) \<and> (\<forall>c. getLocation item \<noteq> Connection c)"
  then show "fst (push ops item w j) = Returned False"
    and "snd (snd (push ops item w j)) = j"
    and "hostState (fst (snd (push ops item w j))) = hostState w"
    by (cases "getLocation item"; simp add: push_def)+
qed

lemma push_classifies_example:
  "push exJoinerHost (ASTNode BLOCK (Block 3)) exWorld
       \<lparr>blockNode = Some (ASTNode BLOCK (Block 2)), connectionNode = None\<rparr>
     = (Returned True, exWorld, \<lparr>blockNode = Some (ASTNode BLOCK (Block 3)), connectionNode = None\<rparr>)
   \<and> push exJoinerHost (ASTNode NEXT (Connection 12)) exWorld
       \<lparr>blockNode = None, connectionNode = Some (ASTNode NEXT (Connection 32))\<rparr>
     = (Returned True, exWorld,
        \<lparr>blockNode = None, connectionNode = Some (ASTNode NEXT (Connection 12))\<rparr>)
   \<and> fst (push exJoinerHost (ASTNode WORKSPACE Workspace) exWorld cyclicMove) = Returned False
   \<and> snd (snd (push exJoinerHost (ASTNode WORKSPACE Workspace) exWorld cyclicMove)) = cyclicMove"
proof -
  have a: "\<exists>b. getLocation (ASTNode BLOCK (Block 3)) = Block b" by simp
  have b: "\<exists>c. getLocation (ASTNode NEXT (Connection 12)) = Connection c" by simp
  have c: "(\<forall>b. getLocation (ASTNode WORKSPACE Workspace) \<noteq> Block b)
    \<and> (\<forall>c. getLocation (ASTNode WORKSPACE Workspace) \<noteq> Connection c)" by simp
  from a push_classifies
    [of "ASTNode BLOCK (Block 3)" exJoinerHost exWorld
        "\<lparr>blockNode = Some (ASTNode BLOCK (Block 2)), connectionNode = None\<rparr>"]
  have 1: "push exJoinerHost (ASTNode BLOCK (Block 3)) exWorld
       \<lparr>blockNode = Some (ASTNode BLOCK (Block 2)), connectionNode = None\<rparr>
     = (Returned True, exWorld, \<lparr>blockNode = Some (ASTNode BLOCK (Block 3)), connectionNode = None\<rparr>)"
    by simp
  from b push_classifies
    [of "ASTNode NEXT (Connection 12)" exJoinerHost exWorld
        "\<lparr>blockNode = None, connectionNode = Some (ASTNode NEXT (Connection 32))\<rparr>"]
  have 2: "push exJoinerHost (ASTNode NEXT (Connection 12)) exWorld
       \<lparr>blockNode = None, connectionNode = Some (ASTNode NEXT (Connection 32))\<rparr>
     = (Returned True, exWorld,
        \<lparr>blockNode = None, connectionNode = Some (ASTNode NEXT (Connection 12))\<rparr>)"
    by simp
  from c push_classifies [of "ASTNode WORKSPACE Workspace" exJoinerHost exWorld cyclicMove]
  have 3: "fst (push exJoinerHost (ASTNode WORKSPACE Workspace) exWorld cyclicMove) = Returned False
   \<and> snd (snd (push exJoinerHost (ASTNode WORKSPACE Workspace) exWorld cyclicMove)) = cyclicMove"
    by simp
  from 1 2 3 show ?thesis by simp
qed

text \<open>
  C6. \<open>push\<close> does not return true on every successful classification. The function
  definition, block 4, is in the block slot and the body connection of the conditional is
  pushed. It is classified as a connection and stored; the service step then reads
  \<open>back(provided).getLocation()\<close> with \<open>back(provided)\<close> being \<open>null\<close> (line 173), and the
  \<open>TypeError\<close> leaves \<open>push\<close> before its \<open>return true\<close>, against the comment of lines 136-137
  (``if this point is reached, will return true''). The slots stay as the push left them.
\<close>

theorem push_throws:
  "getLocation (ASTNode INPUT (Connection 52)) = Connection 52
   \<and> push exJoinerHost (ASTNode INPUT (Connection 52)) exWorld hatPicked
       = (Threw TypeError, exWorld, hatMove)
   \<and> fst (push exJoinerHost (ASTNode INPUT (Connection 52)) exWorld hatPicked) \<noteq> Returned True"
  by (simp add: push_def attemptConnection_def hatMove_def hatPicked_def
      exJoinerHost_def backStep_def exPrev_def)

section \<open>Properties of the connection check\<close>

lemma collect_terminates:
  assumes "\<And>n m. step n = Some m \<Longrightarrow> f m < (f n :: nat)"
  shows "\<exists>ns. collect step n = Some ns"
proof (induction "f n" arbitrary: n rule: less_induct)
  case less
  show ?case
  proof (cases "step n")
    case None
    then show ?thesis by (simp add: collect.simps [of step n])
  next
    case (Some m)
    with assms have "f m < f n" by simp
    from less [OF this] obtain ms where "collect step m = Some ms" by blast
    with Some show ?thesis by (simp add: collect.simps [of step n])
  qed
qed

lemma exAscend_depth: "exAscend () n = Some m \<Longrightarrow> exDepth m < exDepth n"
  unfolding exAscend_def
  apply (drule map_of_SomeD)
  apply (simp only: list.set insert_iff empty_iff prod.inject)
  apply (elim disjE conjE FalseE)
                      apply (simp_all add: exDepth_def)
  done

lemma collect_cases:
  "collect step n = Some ns \<Longrightarrow>
     (step n = None \<and> ns = [n])
     \<or> (\<exists>m rest. step n = Some m \<and> collect step m = Some rest \<and> ns = n # rest)"
  by (subst (asm) collect.simps) (auto split: option.splits simp: Option.bind_eq_Some_conv)

lemma collect_reaches:
  "collect step n = Some ns \<Longrightarrow> set ns = {a. rtranclp (\<lambda>x y. step x = Some y) n a}"
proof (induction ns arbitrary: n)
  case Nil
  with collect_cases [of step n "[]"] show ?case by simp
next
  case (Cons x xs)
  from collect_cases [OF Cons.prems]
  consider "step n = None" "x # xs = [n]"
    | m where "step n = Some m" "collect step m = Some xs" "x = n"
    by auto
  then show ?case
  proof cases
    case 1
    have "rtranclp (\<lambda>x y. step x = Some y) n a \<Longrightarrow> a = n" for a
      by (erule converse_rtranclpE) (simp_all add: 1(1))
    with 1 show ?thesis by auto
  next
    case 2
    from Cons.IH [OF 2(2)] have xs: "set xs = {a. rtranclp (\<lambda>x y. step x = Some y) m a}" .
    have "rtranclp (\<lambda>x y. step x = Some y) n a
        \<longleftrightarrow> a = n \<or> rtranclp (\<lambda>x y. step x = Some y) m a" for a
    proof
      assume "rtranclp (\<lambda>x y. step x = Some y) n a"
      then show "a = n \<or> rtranclp (\<lambda>x y. step x = Some y) m a"
        by (rule converse_rtranclpE) (auto simp: 2(1))
    next
      assume "a = n \<or> rtranclp (\<lambda>x y. step x = Some y) m a"
      then show "rtranclp (\<lambda>x y. step x = Some y) n a"
        using 2(1) by (auto intro: converse_rtranclp_into_rtranclp)
    qed
    with xs 2(3) show ?thesis by auto
  qed
qed

lemma parentBlocks_isAbove:
  assumes "parentBlocks ops h cn = Some pbs"
  shows "sb \<in> set (map Some pbs)
     \<longleftrightarrow> (\<exists>a. isAbove ops h cn a \<and> getType a = BLOCK \<and> Some (getLocation a) = sb)"
proof -
  from assms obtain chain where chain: "collect (nodeAscend ops h) cn = Some chain"
    and pbs: "pbs = map getLocation (filter (\<lambda>n. getType n = BLOCK) chain)"
    by (auto simp: parentBlocks_def)
  from collect_reaches [OF chain] have "set chain = {a. isAbove ops h cn a}"
    by (simp add: isAbove_def)
  with pbs show ?thesis by auto
qed

text \<open>
  C10, as the code has it. On a host whose nodes lie at finite depth (every step up makes a
  depth smaller) the check comes to an end for every target and every candidate, \<open>null\<close>
  included. It returns false when either is \<open>null\<close> or the host's test throws. Otherwise,
  when the candidate's entity has a source block to give (a connection or a field), it
  returns a boolean: true exactly when no node of type \<open>BLOCK\<close> above the target points at
  the source block of the candidate. Otherwise the candidate's entity has no
  \<open>getSourceBlock\<close> and the exception of line 1457 leaves the check.
\<close>

theorem checkConnection_total:
  assumes acyclic: "\<forall>n m. nodeAscend ops h n = Some m \<longrightarrow> depth m < (depth n :: nat)"
  shows "(conn = None \<or> blockConn = None \<longrightarrow>
            checkConnection ops h conn blockConn = Some (Returned False))
     \<and> (conn = Some cn \<and> blockConn = Some bc
          \<and> checkConnectionThrows ops h (getLocation cn) (getLocation bc) \<longrightarrow>
            checkConnection ops h conn blockConn = Some (Returned False))
     \<and> (conn = Some cn \<and> blockConn = Some bc
          \<and> \<not> checkConnectionThrows ops h (getLocation cn) (getLocation bc)
          \<and> getSourceBlock ops h (getLocation bc) = Returned sb \<longrightarrow>
            checkConnection ops h conn blockConn
              = Some (Returned (\<not> (\<exists>a. isAbove ops h cn a \<and> getType a = BLOCK
                                      \<and> Some (getLocation a) = sb))))
     \<and> (conn = Some cn \<and> blockConn = Some bc
          \<and> \<not> checkConnectionThrows ops h (getLocation cn) (getLocation bc)
          \<and> getSourceBlock ops h (getLocation bc) = Threw e \<longrightarrow>
            checkConnection ops h conn blockConn = Some (Threw e))
     \<and> ((\<exists>c. getLocation bc = Connection c) \<or> (\<exists>f. getLocation bc = Field f) \<longrightarrow>
            (\<exists>sb. getSourceBlock ops h (getLocation bc) = Returned sb))"
proof -
  from acyclic have "\<And>n m. nodeAscend ops h n = Some m \<Longrightarrow> depth m < depth n" by blast
  from collect_terminates [of "nodeAscend ops h" depth cn, OF this]
  obtain chain where "collect (nodeAscend ops h) cn = Some chain" by blast
  then obtain pbs where pbs: "parentBlocks ops h cn = Some pbs"
    by (simp add: parentBlocks_def)
  have 1: "conn = None \<or> blockConn = None \<longrightarrow>
      checkConnection ops h conn blockConn = Some (Returned False)"
    by (auto simp: checkConnection_def split: option.splits)
  have 2: "conn = Some cn \<and> blockConn = Some bc
      \<and> checkConnectionThrows ops h (getLocation cn) (getLocation bc) \<longrightarrow>
        checkConnection ops h conn blockConn = Some (Returned False)"
    by (simp add: checkConnection_def)
  have 3: "conn = Some cn \<and> blockConn = Some bc
      \<and> \<not> checkConnectionThrows ops h (getLocation cn) (getLocation bc)
      \<and> getSourceBlock ops h (getLocation bc) = Returned sb \<longrightarrow>
        checkConnection ops h conn blockConn
          = Some (Returned (\<not> (\<exists>a. isAbove ops h cn a \<and> getType a = BLOCK
                                  \<and> Some (getLocation a) = sb)))"
    using pbs parentBlocks_isAbove [OF pbs, of sb] by (simp add: checkConnection_def)
  have 4: "conn = Some cn \<and> blockConn = Some bc
      \<and> \<not> checkConnectionThrows ops h (getLocation cn) (getLocation bc)
      \<and> getSourceBlock ops h (getLocation bc) = Threw e \<longrightarrow>
        checkConnection ops h conn blockConn = Some (Threw e)"
    using pbs by (simp add: checkConnection_def)
  have 5: "(\<exists>c. getLocation bc = Connection c) \<or> (\<exists>f. getLocation bc = Field f) \<longrightarrow>
      (\<exists>sb. getSourceBlock ops h (getLocation bc) = Returned sb)"
    by (auto simp: getSourceBlock_def)
  from 1 2 3 4 5 show ?thesis by blast
qed

lemma exAscend_chain_12:
  "collect (exAscend ()) (ASTNode NEXT (Connection 12)) =
     Some [ASTNode NEXT (Connection 12), ASTNode BLOCK (Block 1), ASTNode STACK (Block 1),
           ASTNode WORKSPACE Workspace]"
  by (simp add: collect.simps exAscend_def)

lemma exAscend_chain_52:
  "collect (exAscend ()) (ASTNode INPUT (Connection 52)) =
     Some [ASTNode INPUT (Connection 52), ASTNode BLOCK (Block 5), ASTNode STACK (Block 5),
           ASTNode WORKSPACE Workspace]"
  by (simp add: collect.simps exAscend_def)

lemma isAbove_chain:
  "collect (nodeAscend ops h) cn = Some chain \<Longrightarrow> isAbove ops h cn a \<longleftrightarrow> a \<in> set chain"
  using collect_reaches [of "nodeAscend ops h" cn chain] by (simp add: isAbove_def)

theorem checkConnection_total_witness:
  "checkConnection exCheckHost () (Some (ASTNode NEXT (Connection 12)))
       (Some (ASTNode PREVIOUS (Connection 30))) = Some (Returned True)
   \<and> checkConnection exCheckHost () (Some (ASTNode NEXT (Connection 32)))
       (Some (ASTNode PREVIOUS (Connection 10))) = Some (Returned False)
   \<and> checkConnection exCheckHost () (Some (ASTNode NEXT (Connection 12))) None = Some (Returned False)
   \<and> checkConnection exCheckHost () None (Some (ASTNode PREVIOUS (Connection 30)))
       = Some (Returned False)
   \<and> checkConnection exCheckHost () (Some (ASTNode INPUT (Connection 52)))
       (Some (ASTNode BLOCK (Block 4))) = Some (Returned False)
   \<and> checkConnection laxCheckHost () (Some (ASTNode INPUT (Connection 52)))
       (Some (ASTNode PREVIOUS (Connection 50))) = Some (Returned False)"
proof -
  have acyclic: "\<forall>n m. nodeAscend exCheckHost () n = Some m \<longrightarrow> exDepth m < exDepth n"
    by (simp add: exCheckHost_def exAscend_depth)
  have lax: "\<forall>n m. nodeAscend laxCheckHost () n = Some m \<longrightarrow> exDepth m < exDepth n"
    by (simp add: laxCheckHost_def exCheckHost_def exAscend_depth)
  have up12: "isAbove exCheckHost () (ASTNode NEXT (Connection 12)) a \<longleftrightarrow>
      a \<in> set [ASTNode NEXT (Connection 12), ASTNode BLOCK (Block 1), ASTNode STACK (Block 1),
               ASTNode WORKSPACE Workspace]" for a
    by (rule isAbove_chain) (simp add: exCheckHost_def exAscend_chain_12)
  have none12: "\<not> (\<exists>a. isAbove exCheckHost () (ASTNode NEXT (Connection 12)) a \<and> getType a = BLOCK
      \<and> Some (getLocation a) = Some (Block 3))"
    by (auto simp: up12)
  have up32: "isAbove exCheckHost () (ASTNode NEXT (Connection 32)) (ASTNode BLOCK (Block 1))"
    using isAbove_chain [of exCheckHost "()" "ASTNode NEXT (Connection 32)"]
    by (simp add: exCheckHost_def exAscend_chain_32)
  have some32: "\<exists>a. isAbove exCheckHost () (ASTNode NEXT (Connection 32)) a \<and> getType a = BLOCK
      \<and> Some (getLocation a) = Some (Block 1)"
    using up32 by (intro exI [of _ "ASTNode BLOCK (Block 1)"]) simp
  have up52: "isAbove laxCheckHost () (ASTNode INPUT (Connection 52)) (ASTNode BLOCK (Block 5))"
    using isAbove_chain [of laxCheckHost "()" "ASTNode INPUT (Connection 52)"]
    by (simp add: laxCheckHost_def exCheckHost_def exAscend_chain_52)
  have some52: "\<exists>a. isAbove laxCheckHost () (ASTNode INPUT (Connection 52)) a \<and> getType a = BLOCK
      \<and> Some (getLocation a) = Some (Block 5)"
    using up52 by (intro exI [of _ "ASTNode BLOCK (Block 5)"]) simp
  have pre1: "\<not> checkConnectionThrows exCheckHost () (getLocation (ASTNode NEXT (Connection 12)))
        (getLocation (ASTNode PREVIOUS (Connection 30)))
      \<and> getSourceBlock exCheckHost () (getLocation (ASTNode PREVIOUS (Connection 30)))
          = Returned (Some (Block 3))"
    by (simp add: exCheckHost_def getSourceBlock_def)
  have pre2: "\<not> checkConnectionThrows exCheckHost () (getLocation (ASTNode NEXT (Connection 32)))
        (getLocation (ASTNode PREVIOUS (Connection 10)))
      \<and> getSourceBlock exCheckHost () (getLocation (ASTNode PREVIOUS (Connection 10)))
          = Returned (Some (Block 1))"
    by (simp add: exCheckHost_def getSourceBlock_def)
  have pre5: "checkConnectionThrows exCheckHost () (getLocation (ASTNode INPUT (Connection 52)))
        (getLocation (ASTNode BLOCK (Block 4)))"
    by (simp add: exCheckHost_def)
  have pre6: "\<not> checkConnectionThrows laxCheckHost () (getLocation (ASTNode INPUT (Connection 52)))
        (getLocation (ASTNode PREVIOUS (Connection 50)))
      \<and> getSourceBlock laxCheckHost () (getLocation (ASTNode PREVIOUS (Connection 50)))
          = Returned (Some (Block 5))"
    by (simp add: laxCheckHost_def exCheckHost_def getSourceBlock_def)
  from checkConnection_total [OF acyclic, of "Some (ASTNode NEXT (Connection 12))"
      "Some (ASTNode PREVIOUS (Connection 30))" "ASTNode NEXT (Connection 12)"
      "ASTNode PREVIOUS (Connection 30)" "Some (Block 3)"] pre1 none12
  have 1: "checkConnection exCheckHost () (Some (ASTNode NEXT (Connection 12)))
       (Some (ASTNode PREVIOUS (Connection 30))) = Some (Returned True)"
    by auto
  from checkConnection_total [OF acyclic, of "Some (ASTNode NEXT (Connection 32))"
      "Some (ASTNode PREVIOUS (Connection 10))" "ASTNode NEXT (Connection 32)"
      "ASTNode PREVIOUS (Connection 10)" "Some (Block 1)"] pre2 some32
  have 2: "checkConnection exCheckHost () (Some (ASTNode NEXT (Connection 32)))
       (Some (ASTNode PREVIOUS (Connection 10))) = Some (Returned False)"
    by auto
  from checkConnection_total [OF acyclic, of "Some (ASTNode NEXT (Connection 12))" None]
  have 3: "checkConnection exCheckHost () (Some (ASTNode NEXT (Connection 12))) None
      = Some (Returned False)"
    by simp
  from checkConnection_total [OF acyclic, of None "Some (ASTNode PREVIOUS (Connection 30))"]
  have 4: "checkConnection exCheckHost () None (Some (ASTNode PREVIOUS (Connection 30)))
       = Some (Returned False)"
    by simp
  from checkConnection_total [OF acyclic, of "Some (ASTNode INPUT (Connection 52))"
      "Some (ASTNode BLOCK (Block 4))" "ASTNode INPUT (Connection 52)" "ASTNode BLOCK (Block 4)"]
    pre5
  have 5: "checkConnection exCheckHost () (Some (ASTNode INPUT (Connection 52)))
       (Some (ASTNode BLOCK (Block 4))) = Some (Returned False)"
    by simp
  from checkConnection_total [OF lax, of "Some (ASTNode INPUT (Connection 52))"
      "Some (ASTNode PREVIOUS (Connection 50))" "ASTNode INPUT (Connection 52)"
      "ASTNode PREVIOUS (Connection 50)" "Some (Block 5)"] pre6 some52
  have 6: "checkConnection laxCheckHost () (Some (ASTNode INPUT (Connection 52)))
       (Some (ASTNode PREVIOUS (Connection 50))) = Some (Returned False)"
    by auto
  from 1 2 3 4 5 6 show ?thesis by simp
qed

text \<open>
  C10, as the claim has it, fails. On the host whose test never throws, the function
  definition, block 4, is the candidate for the body connection of the conditional: a
  block has no \<open>getSourceBlock\<close>, and the check ends in a \<open>TypeError\<close> instead of a boolean.
\<close>

theorem checkConnection_propagates:
  "checkConnectionThrows laxCheckHost () (Connection 52) (Block 4) = False
   \<and> checkConnection laxCheckHost () (Some (ASTNode INPUT (Connection 52)))
       (Some (ASTNode BLOCK (Block 4))) = Some (Threw TypeError)"
  by (simp add: checkConnection_def laxCheckHost_def exCheckHost_def parentBlocks_def
      exAscend_chain_52 getSourceBlock_def)

section \<open>Properties of the selection\<close>

lemma redraw_frame:
  "selected (redraw B h st) = selected st \<and> branch (redraw B h st) = branch st
   \<and> cooldown (redraw B h st) = cooldown st \<and> blockJoiner (redraw B h st) = blockJoiner st
   \<and> pendingRenderEvent (redraw B h st) = pendingRenderEvent st
   \<and> lastHighlighted (redraw B h st) = lastHighlighted st"
  by (simp add: redraw_def Let_def split: option.splits prod.splits)

lemma generateListNoEvent_frame:
  "selected (generateListNoEvent B ws h st) = selected st
   \<and> branch (generateListNoEvent B ws h st) = branch st
   \<and> cooldown (generateListNoEvent B ws h st) = cooldown st
   \<and> blockJoiner (generateListNoEvent B ws h st) = blockJoiner st
   \<and> pendingRenderEvent (generateListNoEvent B ws h st) = pendingRenderEvent st
   \<and> lastHighlighted (generateListNoEvent B ws h st) = lastHighlighted st"
  by (simp add: generateListNoEvent_def redraw_frame)

lemma listItemOnclick_fields:
  "selected (listItemOnclick B ws h n b st) = n
   \<and> cooldown (listItemOnclick B ws h n b st) = cooldown st
   \<and> blockJoiner (listItemOnclick B ws h n b st) = blockJoiner st
   \<and> pendingRenderEvent (listItemOnclick B ws h n b st) = pendingRenderEvent st"
  by (simp add: listItemOnclick_def generateListNoEvent_frame)

text \<open>
  What a block-move event does to the selection when a creation has written a deadline
  \<open>t\<close> into the cooldown: the event is skipped when the deadline has passed, and selects the
  moved block when it has not.
\<close>

lemma move_after_creation:
  assumes "cooldown st = Num t" "t \<noteq> 0" "etype e = BLOCK_MOVE" "blockId e = Some i"
    "getBlockById ws h i = Some (Block i)"
  shows "selected (alterSelectedWithEvent B ws h now e st)
     = (if t < now then selected st else Some (ASTNode BLOCK (Block i)))"
  using assms
  by (simp add: alterSelectedWithEvent_def alterSelectedWithEventRun_def guardedBlockNode_def cooldownAt_def Let_def listItemOnclick_fields
      createBlockNode_def)

text \<open>
  C5. The cooldown works the wrong way round. A creation of block 1 is processed at time
  1000: block 1 is selected and the cooldown runs until 1100. A move of block 2 processed at
  1050, inside the cooldown, takes the selection to block 2. A move of block 2 processed at
  1300, after the cooldown, is skipped, and so is a move of block 3 processed at 5000, since
  the cooldown field has become \<open>true\<close> and stays so.
\<close>

theorem cooldown_inverted:
  "selected (alterSelectedWithEvent plainBuilders exWorkspace () 1000 createBlock1 freshLin)
     = Some (ASTNode BLOCK (Block 1))
   \<and> cooldown (alterSelectedWithEvent plainBuilders exWorkspace () 1000 createBlock1 freshLin)
     = Num 1100
   \<and> selected (alterSelectedWithEvent plainBuilders exWorkspace () 1050 moveBlock2
        (alterSelectedWithEvent plainBuilders exWorkspace () 1000 createBlock1 freshLin))
     = Some (ASTNode BLOCK (Block 2))
   \<and> selected (alterSelectedWithEvent plainBuilders exWorkspace () 1300 moveBlock2
        (alterSelectedWithEvent plainBuilders exWorkspace () 1000 createBlock1 freshLin))
     = Some (ASTNode BLOCK (Block 1))
   \<and> selected (alterSelectedWithEvent plainBuilders exWorkspace () 5000 moveBlock3
        (alterSelectedWithEvent plainBuilders exWorkspace () 1300 moveBlock2
          (alterSelectedWithEvent plainBuilders exWorkspace () 1000 createBlock1 freshLin)))
     = Some (ASTNode BLOCK (Block 1))"
proof -
  let ?s1 = "alterSelectedWithEvent plainBuilders exWorkspace () 1000 createBlock1 freshLin"
  have s1: "selected ?s1 = Some (ASTNode BLOCK (Block 1))" "cooldown ?s1 = Num 1100"
    by (simp_all add: alterSelectedWithEvent_def alterSelectedWithEventRun_def guardedBlockNode_def cooldownAt_def Let_def listItemOnclick_fields
        createBlockNode_def createBlock1_def freshLin_def exWorkspace_def
        startEventCooldown_def)
  have s2: "selected (alterSelectedWithEvent plainBuilders exWorkspace () 1050 moveBlock2 ?s1)
      = Some (ASTNode BLOCK (Block 2))"
    using s1 by (simp add: alterSelectedWithEvent_def alterSelectedWithEventRun_def guardedBlockNode_def cooldownAt_def Let_def
        listItemOnclick_fields createBlockNode_def moveBlock2_def exWorkspace_def)
  let ?s3 = "alterSelectedWithEvent plainBuilders exWorkspace () 1300 moveBlock2 ?s1"
  have s3: "selected ?s3 = Some (ASTNode BLOCK (Block 1))" "cooldown ?s3 = Bool True"
    using s1 by (simp_all add: alterSelectedWithEvent_def alterSelectedWithEventRun_def guardedBlockNode_def cooldownAt_def Let_def moveBlock2_def)
  have s4: "selected (alterSelectedWithEvent plainBuilders exWorkspace () 5000 moveBlock3 ?s3)
      = Some (ASTNode BLOCK (Block 1))"
    using s3 by (simp add: alterSelectedWithEvent_def alterSelectedWithEventRun_def guardedBlockNode_def cooldownAt_def Let_def moveBlock3_def)
  from s1 s2 s3(1) s4 show ?thesis by simp
qed

section \<open>Properties of the render of an empty workspace\<close>

text \<open>
  C9. When the workspace has no blocks, \<open>generateList_\<close> puts the placeholder into the
  breadcrumb container, empties the main list and returns: the event is not looked at, and
  the selection, its branch, the two slots of the joiner, the cooldown and the pending
  event are what they were.
\<close>

theorem empty_workspace_render:
  "getAllBlocks ws h = [] \<Longrightarrow>
     generateList B ws h now e st
       = st\<lparr>parentNav := [Text ''(empty workspace)''], mainNavList := []\<rparr>
     \<and> parentNav (generateList B ws h now e st) = [Text ''(empty workspace)'']
     \<and> mainNavList (generateList B ws h now e st) = []
     \<and> selected (generateList B ws h now e st) = selected st
     \<and> branch (generateList B ws h now e st) = branch st
     \<and> blockNode (blockJoiner (generateList B ws h now e st)) = blockNode (blockJoiner st)
     \<and> connectionNode (blockJoiner (generateList B ws h now e st))
         = connectionNode (blockJoiner st)
     \<and> cooldown (generateList B ws h now e st) = cooldown st"
  by (simp add: generateList_def generateListRun_def)

theorem empty_workspace_render_witness:
  "parentNav (generateList plainBuilders blankWorkspace () 1050 (Some moveBlock2) busyLin)
       = [Text ''(empty workspace)'']
   \<and> mainNavList (generateList plainBuilders blankWorkspace () 1050 (Some moveBlock2) busyLin) = []
   \<and> selected (generateList plainBuilders blankWorkspace () 1050 (Some moveBlock2) busyLin)
       = Some (ASTNode BLOCK (Block 5))
   \<and> branch (generateList plainBuilders blankWorkspace () 1050 (Some moveBlock2) busyLin)
       = branch busyLin
   \<and> blockNode (blockJoiner
        (generateList plainBuilders blankWorkspace () 1050 (Some moveBlock2) busyLin))
       = Some (ASTNode BLOCK (Block 4))
   \<and> cooldown (generateList plainBuilders blankWorkspace () 1050 (Some moveBlock2) busyLin)
       = Num 1100"
proof -
  have "getAllBlocks blankWorkspace () = []" by (simp add: blankWorkspace_def)
  from empty_workspace_render [OF this, of plainBuilders 1050 "Some moveBlock2" busyLin]
  show ?thesis by (simp add: busyLin_def freshLin_def hatPicked_def)
qed

section \<open>Properties of the change listener\<close>

lemma alterSelectedWithEvent_pending:
  "pendingRenderEvent (alterSelectedWithEvent B ws h now e st) = pendingRenderEvent st"
  by (cases "etype e")
    (simp_all add: alterSelectedWithEvent_def alterSelectedWithEventRun_def guardedBlockNode_def
      createBlockNode_def Let_def listItemOnclick_fields startEventCooldown_def
      split: option.splits outcome.splits)

lemma generateList_pending:
  "pendingRenderEvent (generateList B ws h now e st) = pendingRenderEvent st"
proof -
  have "pendingRenderEvent (snd (alterSelectedWithEventRun B ws h now ev st))
      = pendingRenderEvent st" for ev
    using alterSelectedWithEvent_pending [of B ws h now ev st]
    by (simp add: alterSelectedWithEvent_def)
  then have "alterSelectedWithEventRun B ws h now ev st = (r, st1) \<Longrightarrow>
      pendingRenderEvent st1 = pendingRenderEvent st" for ev r st1
    by (metis snd_conv)
  then show ?thesis
    by (auto simp: generateList_def generateListRun_def redraw_frame
        split: option.splits prod.splits outcome.splits)
qed

lemma burst_tail: "burst (x # r) \<Longrightarrow> burst r"
  by (cases r) simp_all

text \<open>
  The state of the loop inside a burst: the newest timer belongs to the event that is
  pending, no identity occurs twice among the timers and the arrivals still to come, and
  the next arrival comes before the newest timer is due. Then the loop renders once, for
  the last arrival (or for the newest timer, when nothing arrives any more).
\<close>

lemma eventLoop_in_burst:
  assumes "timers \<noteq> []"
    and "identical (pendingRenderEvent st) (snd (last timers))"
    and "distinct (map eventIdentity (timers @ arrivals))"
    and "burst arrivals"
    and "arrivals \<noteq> [] \<longrightarrow> fst (hd arrivals) < fst (last timers)"
  shows "fst (eventLoop B ws W arrivals timers st)
    = [if arrivals = [] then last timers else (fst (last arrivals) + 100, snd (last arrivals))]"
  using assms
proof (induction B ws W arrivals timers st rule: eventLoop.induct)
  case (1 B ws W st)
  then show ?case by simp
next
  case (2 B ws W t e arrivals st)
  then show ?case by simp
next
  case (3 B ws W due ev timers st)
  show ?case
  proof (cases "timers = []")
    case True
    with 3 show ?thesis by (simp add: timeoutCallback_def Let_def)
  next
    case False
    from 3(4) False have "eventIdentity (due, ev) \<noteq> eventIdentity (last timers)" by auto
    with 3(3) False have skip: "\<not> identical (pendingRenderEvent st) ev"
      by (simp add: identical_def eventIdentity_def)
    then have r: "timeoutCallback B ws (W due) due ev st = (False, st)"
      by (simp add: timeoutCallback_def)
    have "fst (eventLoop B ws W [] timers st) = [last timers]"
      using 3(1) [OF r [symmetric]] False 3(3,4) r by simp
    with r False show ?thesis by (simp add: Let_def)
  qed
next
  case (4 B ws W t e arrivals due ev timers st)
  show ?case
  proof (cases "t < due")
    case True
    let ?tm = "(t + 100, e)"
    let ?st = "st\<lparr>pendingRenderEvent := e\<rparr>"
    have oc: "onChange e t st = (?st, ?tm)" by (simp add: onChange_def)
    have a: "((due, ev) # timers) @ [?tm] \<noteq> []" by simp
    have b: "identical (pendingRenderEvent ?st) (snd (last (((due, ev) # timers) @ [?tm])))"
      by (simp add: identical_def)
    have c: "distinct (map eventIdentity ((((due, ev) # timers) @ [?tm]) @ arrivals))"
      using 4(5) by (auto simp: eventIdentity_def [abs_def])
    have d: "burst arrivals" using 4(6) by (rule burst_tail)
    have e: "arrivals \<noteq> [] \<longrightarrow> fst (hd arrivals) < fst (last (((due, ev) # timers) @ [?tm]))"
      using 4(6) by (cases arrivals) auto
    from 4(1) [OF True] a b c d e oc
    have "fst (eventLoop B ws W arrivals (((due, ev) # timers) @ [?tm]) ?st)
      = [if arrivals = [] then ?tm else (fst (last arrivals) + 100, snd (last arrivals))]"
      by (simp del: eventLoop.simps)
    with True oc show ?thesis by simp
  next
    case False
    with 4(7) have ne: "timers \<noteq> []" by auto
    from 4(5) ne have "eventIdentity (due, ev) \<noteq> eventIdentity (last timers)" by auto
    with 4(4) ne have skip: "\<not> identical (pendingRenderEvent st) ev"
      by (simp add: identical_def eventIdentity_def)
    then have r: "timeoutCallback B ws (W due) due ev st = (False, st)"
      by (simp add: timeoutCallback_def)
    have "fst (eventLoop B ws W ((t, e) # arrivals) timers st)
      = [(fst (last ((t, e) # arrivals)) + 100, snd (last ((t, e) # arrivals)))]"
      using 4(2) [OF False r [symmetric]] ne 4(4,5,6,7) r by simp
    with r False show ?thesis by (simp add: Let_def)
  qed
qed

text \<open>
  C3, as the code has it. A notification records its event as the pending one; a callback
  renders, with the event it was set with, when that event is identical to the pending one,
  and does nothing otherwise. So a burst in which no event (and not \<open>null\<close>) is notified
  twice ends in exactly one render, 100 milliseconds after the last notification and with
  its event.
\<close>

theorem one_render_per_burst:
  assumes "arrivals \<noteq> []" and "burst arrivals" and "distinct (map eventIdentity arrivals)"
  shows "fst (eventLoop B ws W arrivals [] st)
       = [(fst (last arrivals) + 100, snd (last arrivals))]
     \<and> pendingRenderEvent (fst (onChange e now st)) = e
     \<and> timeoutCallback B ws h now e st =
         (if identical (pendingRenderEvent st) e
          then (True, generateList B ws h now e (st\<lparr>pendingRenderEvent := None\<rparr>))
          else (False, st))"
proof -
  from assms(1) obtain t x rest where ar: "arrivals = (t, x) # rest"
    by (cases arrivals) auto
  let ?st = "st\<lparr>pendingRenderEvent := x\<rparr>"
  have oc: "onChange x t st = (?st, (t + 100, x))" by (simp add: onChange_def)
  have 1: "[(t + 100, x)] \<noteq> []" by simp
  have 2: "identical (pendingRenderEvent ?st) (snd (last [(t + 100, x)]))"
    by (simp add: identical_def)
  have 3: "distinct (map eventIdentity ([(t + 100, x)] @ rest))"
    using assms(3) ar by (auto simp: eventIdentity_def [abs_def])
  have 4: "burst rest" using assms(2) ar burst_tail by blast
  have 5: "rest \<noteq> [] \<longrightarrow> fst (hd rest) < fst (last [(t + 100, x)])"
    using assms(2) ar by (cases rest) auto
  from eventLoop_in_burst [OF 1 2 3 4 5, of B ws W]
  have "fst (eventLoop B ws W rest [(t + 100, x)] ?st)
      = [if rest = [] then (t + 100, x) else (fst (last rest) + 100, snd (last rest))]"
    by simp
  with ar oc have "fst (eventLoop B ws W arrivals [] st)
       = [(fst (last arrivals) + 100, snd (last arrivals))]"
    by simp
  then show ?thesis by (simp add: onChange_def timeoutCallback_def)
qed

theorem one_render_per_burst_witness:
  "fst (eventLoop plainBuilders exWorkspace (\<lambda>t. ())
         [(0, Some (changeEvent 1)), (50, Some (changeEvent 2)), (120, Some (changeEvent 3))]
         [] freshLin)
     = [(220, Some (changeEvent 3))]"
proof -
  have "[(0, Some (changeEvent 1)), (50, Some (changeEvent 2)), (120, Some (changeEvent 3))]
      \<noteq> []"
    and "burst [(0, Some (changeEvent 1)), (50, Some (changeEvent 2)), (120, Some (changeEvent 3))]"
    and "distinct (map eventIdentity
      [(0, Some (changeEvent 1)), (50, Some (changeEvent 2)), (120, Some (changeEvent 3))])"
    by (simp_all add: eventIdentity_def changeEvent_def)
  from one_render_per_burst [OF this, of plainBuilders exWorkspace "\<lambda>t. ()" freshLin]
  show ?thesis by simp
qed

text \<open>
  C3, as the claim has it, fails when an identity is notified twice. Two notifications of
  \<open>null\<close> 50 milliseconds apart end in two renders: each callback finds \<open>null\<close> pending. An
  event notified twice and followed by another one ends in two renders as well.
\<close>

theorem two_renders_in_burst:
  "burst [(0, None), (50, None)]
   \<and> fst (eventLoop plainBuilders exWorkspace (\<lambda>t. ()) [(0, None), (50, None)] [] freshLin)
       = [(100, None), (150, None)]
   \<and> burst [(0, Some (changeEvent 1)), (50, Some (changeEvent 1)), (120, Some (changeEvent 2))]
   \<and> fst (eventLoop plainBuilders exWorkspace (\<lambda>t. ())
        [(0, Some (changeEvent 1)), (50, Some (changeEvent 1)), (120, Some (changeEvent 2))]
        [] freshLin)
       = [(100, Some (changeEvent 1)), (220, Some (changeEvent 2))]"
  by (simp add: onChange_def timeoutCallback_def identical_def generateList_pending
      changeEvent_def freshLin_def Let_def)

section \<open>Properties of the rendering of a conditional\<close>

lemma bindC_Returned:
  "bindC m f = Some (Returned y) \<longleftrightarrow> (\<exists>x. m = Some (Returned x) \<and> f x = Some (Returned y))"
  by (auto simp: bindC_def split: option.splits outcome.splits)

lemma mapC_Returned:
  "mapC f xs = Some (Returned ys) \<Longrightarrow>
     length ys = length xs \<and> (\<forall>i < length xs. f (xs ! i) = Some (Returned (ys ! i)))"
proof (induction xs arbitrary: ys)
  case Nil
  then show ?case by (simp add: ret_def)
next
  case (Cons x xs)
  from Cons.prems obtain y ys' where y: "f x = Some (Returned y)"
    and ys': "mapC f xs = Some (Returned ys')" and eq: "ys = y # ys'"
    by (auto simp: bindC_Returned ret_def)
  from Cons.IH [OF ys'] y eq show ?case
    by (auto simp: nth_Cons split: nat.splits)
qed

lemma concat_nth_split:
  "i < length ys \<Longrightarrow> \<exists>pre post. concat ys = pre @ ys ! i @ post"
proof -
  assume "i < length ys"
  then have "ys = take i ys @ [ys ! i] @ drop (Suc i) ys"
    by (simp add: id_take_nth_drop)
  then have "concat ys = concat (take i ys) @ ys ! i @ concat (drop (Suc i) ys)"
    by (metis concat.simps(2) concat_append append_Nil2 concat.simps(1) append_assoc)
  then show ?thesis by blast
qed

lemma getIfBranches_ex:
  "getIfBranches ifHost () (ASTNode BLOCK (Block 6)) = Some (Returned [ifArm, elseIfArm, elseArm])"
  by code_simp

lemma makeIfList_ex:
  "makeIfList ifHost () ifSelectedMoving (ASTNode BLOCK (Block 6)) None =
    Some (Returned
      [Item ''if true do'' (GoTo (Some (ASTNode BLOCK (Block 6))) (Some ifArm)),
       Ul [Item ''Insert above'' (PushNode (ASTNode INPUT (Connection 62))),
           Item ''print'' (GoTo (Some (ASTNode BLOCK (Block 7))) None),
           Item ''Insert below'' (PushNode (ASTNode NEXT (Connection 72)))],
       Item ''else if NOTHING do'' (GoTo (Some (ASTNode BLOCK (Block 6))) (Some elseIfArm)),
       Ul [Item ''Insert within else if'' (PushNode (ASTNode INPUT (Connection 64)))],
       Item ''else'' (GoTo (Some (ASTNode BLOCK (Block 6))) (Some elseArm)),
       Ul [Item ''Insert within else'' (PushNode (ASTNode INPUT (Connection 65)))]])"
  by code_simp

lemma makeBlockList_ex:
  "makeBlockList 2 ifHost () ifMoving (ASTNode BLOCK (Block 6)) (Block 6) =
    Some (Returned
      [Item ''Insert above'' (PushNode (ASTNode PREVIOUS (Connection 60))),
       Item ''if true do'' (GoTo (Some (ASTNode BLOCK (Block 6))) (Some ifArm)),
       Ul [Item ''Insert above'' (PushNode (ASTNode INPUT (Connection 62))),
           Item ''print'' (GoTo (Some (ASTNode BLOCK (Block 7))) None),
           Item ''Insert below'' (PushNode (ASTNode NEXT (Connection 72)))],
       Item ''else if NOTHING do'' (GoTo (Some (ASTNode BLOCK (Block 6))) (Some elseIfArm)),
       Ul [],
       Item ''else'' (GoTo (Some (ASTNode BLOCK (Block 6))) (Some elseArm)),
       Ul [],
       Item ''end if'' NoClick,
       Item ''Insert below'' (PushNode (ASTNode NEXT (Connection 66)))])"
  by code_simp

lemma ifListSection_empty_body:
  assumes "bodyNode br = None" "blockNode (blockJoiner st) = Some bn"
  shows "ifListSection R h st n br = Some (Returned sec) \<longleftrightarrow>
     (\<exists>hdr c. makeIfBracketItem R h st n br = Some (Returned hdr)
        \<and> connectionNodeOf R h (bodyConnection br) = Some c
        \<and> sec = [hdr, Ul [makeConnectionItem c (''Insert within '' @ bText br)]])"
  using assms
  by (auto simp: ifListSection_def bindC_Returned createConnectionNode_def ret_def throw_def
      split: option.splits)

text \<open>
  The view of a single node (\<open>makeIfList_\<close>) does what the claim says. A branch with an
  empty body shown while the block slot is occupied gets, right after its header, a list
  that holds exactly the insert control bound to the node of its body connection, with the
  text \<open>Insert within\<close> and the text of the branch; no \<open>NOTHING\<close> placeholder.
\<close>

lemma makeIfList_insert_control:
  "(bodyNode br = None \<and> blockNode (blockJoiner st) = Some bn
      \<and> makeIfList R h st n nb = Some (Returned els)
      \<and> (case nb of Some b \<Rightarrow> ret [b] | None \<Rightarrow> getIfBranches R h n) = Some (Returned brs)
      \<and> br \<in> set brs
    \<longrightarrow> (\<exists>hdr c pre post.
           makeIfBracketItem R h st n br = Some (Returned hdr)
           \<and> connectionNodeOf R h (bodyConnection br) = Some c
           \<and> els = pre @ [hdr, Ul [makeConnectionItem c (''Insert within '' @ bText br)]] @ post))
   \<and> (bodyNode br = None \<and> blockNode (blockJoiner st) = Some bn
      \<and> makeIfBracketItem R h st n br = Some (Returned hdr)
      \<and> connectionNodeOf R h (bodyConnection br) = Some c
    \<longrightarrow> ifListSection R h st n br
          = Some (Returned [hdr, Ul [makeConnectionItem c (''Insert within '' @ bText br)]]))"
proof (intro conjI impI)
  assume a: "bodyNode br = None \<and> blockNode (blockJoiner st) = Some bn
      \<and> makeIfList R h st n nb = Some (Returned els)
      \<and> (case nb of Some b \<Rightarrow> ret [b] | None \<Rightarrow> getIfBranches R h n) = Some (Returned brs)
      \<and> br \<in> set brs"
  then obtain secs cond tail where secs: "mapC (ifListSection R h st n) brs = Some (Returned secs)"
    and els: "els = cond @ concat secs @ tail"
    by (auto simp: makeIfList_def bindC_Returned ret_def Let_def)
  from a obtain i where i: "i < length brs" "brs ! i = br" by (auto simp: in_set_conv_nth)
  from mapC_Returned [OF secs] i
  have len: "length secs = length brs" and sec: "ifListSection R h st n br = Some (Returned (secs ! i))"
    by auto
  from sec a obtain hdr c where hc: "makeIfBracketItem R h st n br = Some (Returned hdr)"
    "connectionNodeOf R h (bodyConnection br) = Some c"
    "secs ! i = [hdr, Ul [makeConnectionItem c (''Insert within '' @ bText br)]]"
    using ifListSection_empty_body [of br st bn R h n "secs ! i"] by auto
  from concat_nth_split [of i secs] i len obtain pre post where
    "concat secs = pre @ secs ! i @ post" by auto
  with els hc(3)
  have "els = (cond @ pre) @ [hdr, Ul [makeConnectionItem c (''Insert within '' @ bText br)]]
      @ (post @ tail)" by simp
  with hc(1,2) show "\<exists>hdr c pre post.
           makeIfBracketItem R h st n br = Some (Returned hdr)
           \<and> connectionNodeOf R h (bodyConnection br) = Some c
           \<and> els = pre @ [hdr, Ul [makeConnectionItem c (''Insert within '' @ bText br)]] @ post"
    by blast
next
  assume "bodyNode br = None \<and> blockNode (blockJoiner st) = Some bn
      \<and> makeIfBracketItem R h st n br = Some (Returned hdr)
      \<and> connectionNodeOf R h (bodyConnection br) = Some c"
  then show "ifListSection R h st n br
          = Some (Returned [hdr, Ul [makeConnectionItem c (''Insert within '' @ bText br)]])"
    using ifListSection_empty_body [of br st bn R h n] by auto
qed

text \<open>
  The view of the whole workspace (\<open>makeBlockList_\<close>) puts the same control behind the
  connection check, and hands the check the node in the block slot itself (line 543) where
  every other caller hands it \<open>blockNode.prev()\<close> or \<open>blockNode.next()\<close> (lines 689, 712,
  755, 1084, 1320). The node in the block slot points at a block, and for a candidate that
  points at a block the check never answers true, on any host: either the host's test
  throws and the answer is false, or \<open>getSourceBlock\<close> is missing and a \<open>TypeError\<close> leaves
  the check. So the list under the header of a branch with an empty body never holds the
  control.
\<close>

lemma checkConnection_block_candidate:
  "getLocation bn = Block b \<Longrightarrow> checkConnection ops h c (Some bn) \<noteq> Some (Returned True)"
  by (auto simp: checkConnection_def getSourceBlock_def split: option.splits)

lemma blockListSection_no_control:
  assumes "bodyNode br = None" "blockNode (blockJoiner st) = Some bn" "getLocation bn = Block b"
    and "blockListSection again R h st n br = Some (Returned sec)"
  shows "\<exists>hdr. makeIfBracketItem R h st n br = Some (Returned hdr) \<and> sec = [hdr, Ul []]"
proof -
  from assms(1,2,4) obtain hdr ok where hdr: "makeIfBracketItem R h st n br = Some (Returned hdr)"
    and ok: "checkConnection (checks R) h (createConnectionNode R h (Some (bodyConnection br)))
               (Some bn) = Some (Returned ok)"
    and sec: "(if ok
               then (case createConnectionNode R h (Some (bodyConnection br)) of
                       Some c \<Rightarrow>
                         ret [hdr, Ul [makeConnectionItem c (''Insert within '' @ bText br)]]
                     | None \<Rightarrow> throw TypeError)
               else ret [hdr, Ul []]) = Some (Returned sec)"
    by (auto simp: blockListSection_def bindC_Returned Let_def)
  from ok checkConnection_block_candidate
    [OF assms(3), of "checks R" h "createConnectionNode R h (Some (bodyConnection br))"]
  have "\<not> ok" by (cases ok) simp_all
  with sec hdr show ?thesis by (auto simp: ret_def)
qed

text \<open>
  C8. In the view of the whole workspace a branch with an empty body gets no insert
  control. Block 9, a statement block, is in the block slot, and the conditional, block 6,
  is listed in its stack: the lists under \<open>else if\<close> and under \<open>else\<close>, both with an empty
  body, are empty. The check is asked about the node of block 9 and answers false; asked
  about the predecessor connection of block 9, as the other callers ask it, it answers
  true for both body connections. The view of the single node offers the control in both
  branches.
\<close>

theorem no_insert_control_in_workspace_view:
  "blockNode (blockJoiner ifMoving) = Some (ASTNode BLOCK (Block 9))
   \<and> getIfBranches ifHost () (ASTNode BLOCK (Block 6))
       = Some (Returned [ifArm, elseIfArm, elseArm])
   \<and> bodyNode elseIfArm = None \<and> bodyNode elseArm = None
   \<and> bodyConnection elseIfArm = Connection 64 \<and> bodyConnection elseArm = Connection 65
   \<and> makeBlockList 2 ifHost () ifMoving (ASTNode BLOCK (Block 6)) (Block 6) =
       Some (Returned
         [Item ''Insert above'' (PushNode (ASTNode PREVIOUS (Connection 60))),
          Item ''if true do'' (GoTo (Some (ASTNode BLOCK (Block 6))) (Some ifArm)),
          Ul [Item ''Insert above'' (PushNode (ASTNode INPUT (Connection 62))),
              Item ''print'' (GoTo (Some (ASTNode BLOCK (Block 7))) None),
              Item ''Insert below'' (PushNode (ASTNode NEXT (Connection 72)))],
          Item ''else if NOTHING do'' (GoTo (Some (ASTNode BLOCK (Block 6))) (Some elseIfArm)),
          Ul [],
          Item ''else'' (GoTo (Some (ASTNode BLOCK (Block 6))) (Some elseArm)),
          Ul [],
          Item ''end if'' NoClick,
          Item ''Insert below'' (PushNode (ASTNode NEXT (Connection 66)))])
   \<and> checkConnection (checks ifHost) () (Some (ASTNode INPUT (Connection 64)))
       (Some (ASTNode BLOCK (Block 9))) = Some (Returned False)
   \<and> checkConnection (checks ifHost) () (Some (ASTNode INPUT (Connection 65)))
       (Some (ASTNode BLOCK (Block 9))) = Some (Returned False)
   \<and> checkConnection (checks ifHost) () (Some (ASTNode INPUT (Connection 64)))
       (astPrev ifHost () (ASTNode BLOCK (Block 9))) = Some (Returned True)
   \<and> checkConnection (checks ifHost) () (Some (ASTNode INPUT (Connection 65)))
       (astPrev ifHost () (ASTNode BLOCK (Block 9))) = Some (Returned True)
   \<and> makeIfList ifHost () ifSelectedMoving (ASTNode BLOCK (Block 6)) None =
       Some (Returned
         [Item ''if true do'' (GoTo (Some (ASTNode BLOCK (Block 6))) (Some ifArm)),
          Ul [Item ''Insert above'' (PushNode (ASTNode INPUT (Connection 62))),
              Item ''print'' (GoTo (Some (ASTNode BLOCK (Block 7))) None),
              Item ''Insert below'' (PushNode (ASTNode NEXT (Connection 72)))],
          Item ''else if NOTHING do'' (GoTo (Some (ASTNode BLOCK (Block 6))) (Some elseIfArm)),
          Ul [Item ''Insert within else if'' (PushNode (ASTNode INPUT (Connection 64)))],
          Item ''else'' (GoTo (Some (ASTNode BLOCK (Block 6))) (Some elseArm)),
          Ul [Item ''Insert within else'' (PushNode (ASTNode INPUT (Connection 65)))]])"
proof -
  have 1: "blockNode (blockJoiner ifMoving) = Some (ASTNode BLOCK (Block 9))
      \<and> bodyNode elseIfArm = None \<and> bodyNode elseArm = None
      \<and> bodyConnection elseIfArm = Connection 64 \<and> bodyConnection elseArm = Connection 65"
    by (simp add: ifMoving_def freshLin_def elseArm_def elseIfArm_def)
  have 2: "checkConnection (checks ifHost) () (Some (ASTNode INPUT (Connection 64)))
       (Some (ASTNode BLOCK (Block 9))) = Some (Returned False)"
    by code_simp
  have 3: "checkConnection (checks ifHost) () (Some (ASTNode INPUT (Connection 65)))
       (Some (ASTNode BLOCK (Block 9))) = Some (Returned False)"
    by code_simp
  have 4: "checkConnection (checks ifHost) () (Some (ASTNode INPUT (Connection 64)))
       (astPrev ifHost () (ASTNode BLOCK (Block 9))) = Some (Returned True)"
    by code_simp
  have 5: "checkConnection (checks ifHost) () (Some (ASTNode INPUT (Connection 65)))
       (astPrev ifHost () (ASTNode BLOCK (Block 9))) = Some (Returned True)"
    by code_simp
  from 1 2 3 4 5 makeBlockList_ex getIfBranches_ex makeIfList_ex show ?thesis by simp
qed

section \<open>Properties of the view of the whole workspace\<close>


lemma walk_Returned: "walk r = Some (Returned ns) \<longleftrightarrow> r = Some ns"
  by (auto simp: walk_def ret_def split: option.splits)





lemma listed_append: "listed R h (a @ b) = listed R h a @ listed R h b"
  by (simp add: listed_def)

lemma listed_concat: "listed R h (concat xs) = concat (map (listed R h) xs)"
  by (induction xs) (simp_all add: listed_append, simp add: listed_def)














































end
